theory Spec2Isabelle
  imports Complex_Main
begin

section \<open>The monitoring launcher (system-monitor-with-alert.py)\<close>

text \<open>
  The launcher is a sequential script that talks to the operating system, to three HTTP
  services and to the console. The model makes this explicit:
  \<^item> every call that leaves the interpreter (\<open>requests.get\<close>, \<open>subprocess.run\<close>,
    \<open>subprocess.Popen\<close>, \<open>time.sleep\<close>, \<open>print\<close>, \<open>log_message\<close>,
    \<open>terminate\<close>, \<open>webbrowser.open\<close>) appends one event to a trace, in program order;
  \<^item> what the outside world answers is read from an environment \<open>env\<close>: the reply to
    the n-th HTTP request, to the n-th \<open>subprocess.run\<close>, to the n-th \<open>Popen\<close>;
  \<^item> a Python exception is a value: every method returns either \<open>Inl e\<close> (it raised
    \<open>e\<close>) or \<open>Inr v\<close> (it returned \<open>v\<close>), together with the state reached, so that
    what ran before a raise stays in the trace.

  Exceptions of the model are the subclasses of \<open>Exception\<close> (the failures of a request,
  of JSON decoding, of a lookup, of a process launch, of writing to the console), for
  which \<open>except:\<close> and \<open>except Exception\<close> coincide. \<open>time.sleep\<close> and
  \<open>terminate\<close> are taken not to raise, and the write to the log file is best-effort in
  the source (its \<open>try\<close> swallows every error); timestamps and console colours are left
  out of the log events. \<open>print\<close> can raise: see \<open>stdout_write\<close> below.
\<close>

subsection \<open>Python values and exceptions\<close>

datatype exn = Exn string string
  \<comment> \<open>class name and \<open>str(e)\<close>\<close>

fun str_exn :: "exn \<Rightarrow> string" where
  "str_exn (Exn cls msg) = msg"

datatype pyfloat = FVal rat | FInf | FNegInf | FNaN

datatype pyval =
    PNone
  | PBool bool
  | PInt int
  | PFloat pyfloat
  | PStr string
  | PList "pyval list"
  | PDict "(string \<times> pyval) list"

text \<open>Truth value of an object, as \<open>if x:\<close> and \<open>x and y\<close> test it.\<close>

fun truthy :: "pyval \<Rightarrow> bool" where
  "truthy PNone = False"
| "truthy (PBool b) = b"
| "truthy (PInt i) = (i \<noteq> 0)"
| "truthy (PFloat f) = (f \<noteq> FVal 0)"
| "truthy (PStr s) = (s \<noteq> [])"
| "truthy (PList xs) = (xs \<noteq> [])"
| "truthy (PDict kvs) = (kvs \<noteq> [])"

text \<open>\<open>obj[key]\<close> with a string key: only a dict accepts it.\<close>

fun getitem_str :: "pyval \<Rightarrow> string \<Rightarrow> exn + pyval" where
  "getitem_str (PDict kvs) k =
     (case map_of kvs k of
        None \<Rightarrow> Inl (Exn ''KeyError'' k)
      | Some v \<Rightarrow> Inr v)"
| "getitem_str (PList xs) k = Inl (Exn ''TypeError'' ''list indices must be integers or slices, not str'')"
| "getitem_str (PStr s) k = Inl (Exn ''TypeError'' ''string indices must be integers, not str'')"
| "getitem_str v k = Inl (Exn ''TypeError'' ''object is not subscriptable'')"

text \<open>\<open>obj[i]\<close> with a non-negative integer index (the source uses 0 and 1).\<close>

fun getitem_int :: "pyval \<Rightarrow> nat \<Rightarrow> exn + pyval" where
  "getitem_int (PList xs) i =
     (if i < length xs then Inr (xs ! i) else Inl (Exn ''IndexError'' ''list index out of range''))"
| "getitem_int (PStr s) i =
     (if i < length s then Inr (PStr [s ! i]) else Inl (Exn ''IndexError'' ''string index out of range''))"
| "getitem_int (PDict kvs) i = Inl (Exn ''KeyError'' ''int'')"
| "getitem_int v i = Inl (Exn ''TypeError'' ''object is not subscriptable'')"

text \<open>\<open>labels.get(key, default)\<close>: only a dict has the method.\<close>

fun dict_get :: "pyval \<Rightarrow> string \<Rightarrow> pyval \<Rightarrow> exn + pyval" where
  "dict_get (PDict kvs) k d = Inr (case map_of kvs k of None \<Rightarrow> d | Some v \<Rightarrow> v)"
| "dict_get v k d = Inl (Exn ''AttributeError'' ''object has no attribute get'')"

text \<open>The elements \<open>for x in obj\<close> visits.\<close>

fun py_iter :: "pyval \<Rightarrow> exn + pyval list" where
  "py_iter (PList xs) = Inr xs"
| "py_iter (PDict kvs) = Inr (map (\<lambda>kv. PStr (fst kv)) kvs)"
| "py_iter (PStr s) = Inr (map (\<lambda>c. PStr [c]) s)"
| "py_iter v = Inl (Exn ''TypeError'' ''object is not iterable'')"

text \<open>\<open>sub in s\<close> on strings.\<close>

fun starts_with :: "string \<Rightarrow> string \<Rightarrow> bool" where
  "starts_with [] s = True"
| "starts_with (c # cs) [] = False"
| "starts_with (c # cs) (d # ds) = (c = d \<and> starts_with cs ds)"

fun str_in :: "string \<Rightarrow> string \<Rightarrow> bool" where
  "str_in sub [] = (sub = [])"
| "str_in sub (c # cs) = (starts_with sub (c # cs) \<or> str_in sub cs)"

text \<open>\<open>str(n)\<close> for a non-negative integer.\<close>

definition digit :: "nat \<Rightarrow> char" where
  "digit d = char_of (48 + d)"

function str_nat :: "nat \<Rightarrow> string" where
  "str_nat n = (if n < 10 then [digit n] else str_nat (n div 10) @ [digit (n mod 10)])"
  by pat_completeness auto
termination
  by (relation "measure id") auto

declare str_nat.simps [simp del]

subsection \<open>The outside world\<close>

datatype http_outcome =
    Response nat "exn + pyval"
    \<comment> \<open>a response arrived: its \<open>status_code\<close>, and what \<open>response.json()\<close> gives\<close>
  | RequestRaised exn
    \<comment> \<open>\<open>requests.get\<close> raised (connection refused, timeout, ...)\<close>

datatype event =
    Log string string
    \<comment> \<open>\<open>log_message(message, status)\<close>: status, then message\<close>
  | Print string
  | Run "string list"
    \<comment> \<open>\<open>subprocess.run(cmd, ...)\<close>\<close>
  | Popen "string list" string
    \<comment> \<open>\<open>subprocess.Popen(cmd, cwd=...)\<close>\<close>
  | Sleep nat
  | HttpGet string "(string \<times> string) list" nat
    \<comment> \<open>\<open>requests.get(url, params=..., timeout=...)\<close>\<close>
  | Terminate nat
  | BrowserOpen string

record env =
  http_reply :: "nat \<Rightarrow> string \<Rightarrow> (string \<times> string) list \<Rightarrow> nat \<Rightarrow> http_outcome"
  run_reply :: "nat \<Rightarrow> string list \<Rightarrow> exn + string"
  popen_reply :: "nat \<Rightarrow> string list \<Rightarrow> string \<Rightarrow> exn + nat"
  browser_reply :: "string \<Rightarrow> exn + bool"
  os_path_exists :: "string \<Rightarrow> bool"
  os_path_dirname :: "string \<Rightarrow> string"
  os_path_join :: "string list \<Rightarrow> string"
  os_path_abspath :: "string \<Rightarrow> string"
  os_getcwd :: string
  format_percent :: "pyval \<Rightarrow> exn + string"
  format_alert :: "pyval \<Rightarrow> pyval \<Rightarrow> pyval \<Rightarrow> exn + string"
  stdout_unicode :: bool

text \<open>
  \<open>http_reply env n url params timeout\<close> is the outcome of the request issued when \<open>n\<close>
  requests have been issued before it; \<open>run_reply\<close> gives the captured standard output of
  the n-th \<open>subprocess.run\<close> (or the exception it raises), \<open>popen_reply\<close> the handle of the
  n-th launched process. The \<open>os.path\<close> functions are the library's.
  \<open>format_percent v\<close> stands for \<open>float(v)\<close> rendered with \<open>:.1f\<close>, and
  \<open>format_alert name state severity\<close> for the replacement fields
  \<open>{name:<20}: {status.upper()} ({severity})\<close> of the alert line (the two leading spaces
  of the f-string are written out in \<open>alert_text\<close>); both are library behaviour
  (floating point, Unicode case mapping) and may raise. \<open>stdout_unicode\<close> says whether
  the encoding of \<open>sys.stdout\<close> has the characters U+2713 and U+2717 (UTF-8 has them,
  cp1252, the encoding of a redirected stdout on Windows, has not).
\<close>

subsection \<open>The object and the actions on it\<close>

record monitor =
  prometheus_path :: string
  alertmanager_path :: string
  windows_exporter_service :: string
  dashboard_path :: string
  config_file :: string
  prometheus_url :: string
  alertmanager_url :: string
  exporter_url :: string
  prometheus_process :: "nat option"
  alertmanager_process :: "nat option"
  log_file :: string
  trace :: "event list"

type_synonym 'a action = "monitor \<Rightarrow> (exn + 'a) \<times> monitor"

definition py_return :: "'a \<Rightarrow> 'a action" where
  "py_return v s = (Inr v, s)"

definition py_raise :: "exn \<Rightarrow> 'a action" where
  "py_raise e s = (Inl e, s)"

definition py_bind :: "'a action \<Rightarrow> ('a \<Rightarrow> 'b action) \<Rightarrow> 'b action" where
  "py_bind m k s = (case m s of (Inl e, s') \<Rightarrow> (Inl e, s') | (Inr v, s') \<Rightarrow> k v s')"

definition py_seq :: "unit action \<Rightarrow> 'b action \<Rightarrow> 'b action" where
  "py_seq m k = py_bind m (\<lambda>_. k)"

definition py_try :: "'a action \<Rightarrow> (exn \<Rightarrow> 'a action) \<Rightarrow> 'a action" where
  "py_try m h s = (case m s of (Inl e, s') \<Rightarrow> h e s' | (Inr v, s') \<Rightarrow> (Inr v, s'))"

definition py_lift :: "exn + 'a \<Rightarrow> 'a action" where
  "py_lift r s = (r, s)"

definition py_get :: "(monitor \<Rightarrow> 'a) \<Rightarrow> 'a action" where
  "py_get f s = (Inr (f s), s)"

definition emit :: "event \<Rightarrow> unit action" where
  "emit e s = (Inr (), s\<lparr>trace := trace s @ [e]\<rparr>)"

fun is_http :: "event \<Rightarrow> bool" where
  "is_http (HttpGet url params timeout) = True"
| "is_http e = False"

fun is_run :: "event \<Rightarrow> bool" where
  "is_run (Run cmd) = True"
| "is_run e = False"

fun is_popen :: "event \<Rightarrow> bool" where
  "is_popen (Popen cmd cwd) = True"
| "is_popen e = False"

fun is_sleep :: "event \<Rightarrow> bool" where
  "is_sleep (Sleep n) = True"
| "is_sleep e = False"

definition http_count :: "monitor \<Rightarrow> nat" where
  "http_count s = length (filter is_http (trace s))"

definition run_count :: "monitor \<Rightarrow> nat" where
  "run_count s = length (filter is_run (trace s))"

definition popen_count :: "monitor \<Rightarrow> nat" where
  "popen_count s = length (filter is_popen (trace s))"

definition sleep_count :: "monitor \<Rightarrow> nat" where
  "sleep_count s = length (filter is_sleep (trace s))"

text \<open>
  The program's own text has two characters outside ASCII: U+2713 and U+2717, each the
  first character of a message that \<open>verify_services\<close> logs. They are kept as their
  UTF-8 bytes. \<open>print\<close> raises \<open>UnicodeEncodeError\<close> when the encoding of stdout lacks
  a character of the text; whatever the world contributes to a line (command output,
  paths, exception messages, names, URLs) follows an ASCII literal of the program and is
  taken to be printable, since it reached the program through the platform's own code
  page. So a text fails to print exactly when it starts with one of the two marks and
  stdout cannot encode them.
\<close>

definition check_mark :: string where
  "check_mark = [CHR 0xE2, CHR 0x9C, CHR 0x93]"

definition cross_mark :: string where
  "cross_mark = [CHR 0xE2, CHR 0x9C, CHR 0x97]"

definition has_glyph :: "string \<Rightarrow> bool" where
  "has_glyph text = (starts_with check_mark text \<or> starts_with cross_mark text)"

definition stdout_write :: "env \<Rightarrow> string \<Rightarrow> unit action" where
  "stdout_write env text =
     (if has_glyph text \<and> \<not> stdout_unicode env
      then py_raise (Exn ''UnicodeEncodeError'' ''codec cannot encode character'')
      else py_return ())"

text \<open>
  \<open>log_message\<close> appends to the log file inside a \<open>try\<close> that swallows every error
  (the \<open>Log\<close> event), then calls \<open>print_status\<close>, whose \<open>print\<close> is outside any
  \<open>try\<close>. \<open>print_line\<close> is a plain \<open>print\<close>: the \<open>Print\<close> event is the line written.
\<close>

definition log_message :: "env \<Rightarrow> string \<Rightarrow> string \<Rightarrow> unit action" where
  "log_message env message status =
     py_seq (emit (Log status message)) (stdout_write env message)"

definition print_line :: "env \<Rightarrow> string \<Rightarrow> unit action" where
  "print_line env text = py_seq (stdout_write env text) (emit (Print text))"

definition time_sleep :: "nat \<Rightarrow> unit action" where
  "time_sleep seconds = emit (Sleep seconds)"

definition requests_get ::
  "env \<Rightarrow> string \<Rightarrow> (string \<times> string) list \<Rightarrow> nat \<Rightarrow> (nat \<times> (exn + pyval)) action" where
  "requests_get env url params timeout s =
     (let s' = s\<lparr>trace := trace s @ [HttpGet url params timeout]\<rparr>
      in case http_reply env (http_count s) url params timeout of
           RequestRaised e \<Rightarrow> (Inl e, s')
         | Response code body \<Rightarrow> (Inr (code, body), s'))"

definition subprocess_run :: "env \<Rightarrow> string list \<Rightarrow> string action" where
  "subprocess_run env cmd s =
     (run_reply env (run_count s) cmd, s\<lparr>trace := trace s @ [Run cmd]\<rparr>)"

definition subprocess_Popen :: "env \<Rightarrow> string list \<Rightarrow> string \<Rightarrow> nat action" where
  "subprocess_Popen env cmd cwd s =
     (popen_reply env (popen_count s) cmd cwd, s\<lparr>trace := trace s @ [Popen cmd cwd]\<rparr>)"

subsection \<open>check_url_accessible\<close>

definition check_url_accessible :: "env \<Rightarrow> string \<Rightarrow> nat \<Rightarrow> bool action" where
  "check_url_accessible env url timeout =
     py_try
       (py_bind (requests_get env url [] timeout)
          (\<lambda>response. py_return (fst response = 200)))
       (\<lambda>e. py_return False)"

subsection \<open>The exporter service\<close>

definition check_service_running :: "env \<Rightarrow> string \<Rightarrow> bool action" where
  "check_service_running env service_name =
     py_try
       (py_bind (subprocess_run env [''sc'', ''query'', service_name])
          (\<lambda>stdout. py_return (str_in ''RUNNING'' stdout)))
       (\<lambda>e. py_seq
          (log_message env (''Error checking service '' @ service_name @ '': '' @ str_exn e) ''ERROR'')
          (py_return False))"

definition start_windows_exporter :: "env \<Rightarrow> bool action" where
  "start_windows_exporter env =
     py_seq (log_message env ''Checking Windows Exporter service...'' ''INFO'')
    (py_bind (py_get windows_exporter_service) (\<lambda>service.
     py_bind (check_service_running env service) (\<lambda>running.
       if running then
         py_seq (log_message env ''Windows Exporter is already running'' ''SUCCESS'')
           (py_return True)
       else
         py_seq (log_message env ''Starting Windows Exporter service...'' ''INFO'')
        (py_try
           (py_bind (subprocess_run env [''sc'', ''start'', service]) (\<lambda>stdout.
              if str_in ''START_PENDING'' stdout \<or> str_in ''RUNNING'' stdout then
                py_seq (time_sleep 3)
               (py_seq (log_message env ''Windows Exporter started successfully'' ''SUCCESS'')
                  (py_return True))
              else
                py_seq (log_message env (''Failed to start Windows Exporter: '' @ stdout) ''ERROR'')
                  (py_return False)))
           (\<lambda>e.
              py_seq (log_message env (''Error starting Windows Exporter: '' @ str_exn e) ''ERROR'')
             (py_seq (log_message env ''Try running this script as Administrator'' ''WARNING'')
                (py_return False)))))))"

subsection \<open>The readiness poll and the two launched processes\<close>

text \<open>
  The loops \<open>for i in range(max_retries)\<close> of \<open>start_alertmanager\<close> and
  \<open>start_prometheus\<close> are the same text up to the service's name, its URL and the value of
  \<open>max_retries\<close>; the sleep is \<open>time.sleep(2)\<close> in both. \<open>wait_ready\<close> is that loop
  over the remaining values of \<open>i\<close>; it gives \<open>True\<close> where the source returns from
  inside the loop and \<open>False\<close> where the loop runs out.
\<close>

fun wait_ready :: "env \<Rightarrow> string \<Rightarrow> string \<Rightarrow> nat \<Rightarrow> nat \<Rightarrow> nat list \<Rightarrow> bool action" where
  "wait_ready env name url interval max_retries [] = py_return False"
| "wait_ready env name url interval max_retries (i # rest) =
     py_seq (time_sleep interval)
    (py_bind (check_url_accessible env url 5) (\<lambda>ok.
       if ok then
         py_seq (log_message env (name @ '' started successfully'') ''SUCCESS'')
           (py_return True)
       else
         py_seq (log_message env (''Waiting for '' @ name @ ''... ('' @ str_nat (i + 1) @ ''/''
                   @ str_nat max_retries @ '')'') ''INFO'')
           (wait_ready env name url interval max_retries rest)))"

definition set_alertmanager_process :: "nat \<Rightarrow> unit action" where
  "set_alertmanager_process h s = (Inr (), s\<lparr>alertmanager_process := Some h\<rparr>)"

definition set_prometheus_process :: "nat \<Rightarrow> unit action" where
  "set_prometheus_process h s = (Inr (), s\<lparr>prometheus_process := Some h\<rparr>)"

definition start_alertmanager :: "env \<Rightarrow> bool action" where
  "start_alertmanager env =
     py_seq (log_message env ''Checking Alertmanager...'' ''INFO'')
    (py_bind (py_get alertmanager_url) (\<lambda>url.
     py_bind (check_url_accessible env url 5) (\<lambda>ok.
       if ok then
         py_seq (log_message env ''Alertmanager is already running'' ''SUCCESS'')
           (py_return True)
       else
         py_bind (py_get alertmanager_path) (\<lambda>path.
           if \<not> os_path_exists env path then
             py_seq (log_message env (''Alertmanager not found at: '' @ path) ''ERROR'')
               (py_return False)
           else
             py_seq (log_message env ''Starting Alertmanager...'' ''INFO'')
            (py_try
               (let alertmanager_dir = os_path_dirname env path;
                    config_path = os_path_join env [alertmanager_dir, ''alertmanager.yml''];
                    cmd = [path, ''--config.file='' @ config_path]
                in py_bind (subprocess_Popen env cmd alertmanager_dir) (\<lambda>h.
                   py_seq (set_alertmanager_process h)
                  (py_bind (wait_ready env ''Alertmanager'' url 2 10 [0..<10]) (\<lambda>ready.
                     if ready then py_return True
                     else
                       py_seq (log_message env ''Alertmanager failed to start within timeout'' ''ERROR'')
                         (py_return False)))))
               (\<lambda>e.
                  py_seq (log_message env (''Error starting Alertmanager: '' @ str_exn e) ''ERROR'')
                    (py_return False)))))))"

definition start_prometheus :: "env \<Rightarrow> bool action" where
  "start_prometheus env =
     py_seq (log_message env ''Checking Prometheus...'' ''INFO'')
    (py_bind (py_get prometheus_url) (\<lambda>url.
     py_bind (check_url_accessible env url 5) (\<lambda>ok.
       if ok then
         py_seq (log_message env ''Prometheus is already running'' ''SUCCESS'')
           (py_return True)
       else
         py_bind (py_get prometheus_path) (\<lambda>path.
           if \<not> os_path_exists env path then
             py_seq (log_message env (''Prometheus not found at: '' @ path) ''ERROR'')
               (py_return False)
           else
             py_seq (log_message env ''Starting Prometheus...'' ''INFO'')
            (py_try
               (py_bind (py_get config_file) (\<lambda>config.
                let prom_dir = os_path_dirname env path;
                    cmd = [path, ''--config.file='' @ config]
                in py_bind (subprocess_Popen env cmd
                              (if prom_dir \<noteq> [] then prom_dir else os_getcwd env)) (\<lambda>h.
                   py_seq (set_prometheus_process h)
                  (py_bind (wait_ready env ''Prometheus'' url 2 15 [0..<15]) (\<lambda>ready.
                     if ready then py_return True
                     else
                       py_seq (log_message env ''Prometheus failed to start within timeout'' ''ERROR'')
                         (py_return False))))))
               (\<lambda>e.
                  py_seq (log_message env (''Error starting Prometheus: '' @ str_exn e) ''ERROR'')
                    (py_return False)))))))"

subsection \<open>verify_services\<close>

fun verify_loop :: "env \<Rightarrow> (string \<times> string) list \<Rightarrow> bool \<Rightarrow> bool action" where
  "verify_loop env [] all_ok = py_return all_ok"
| "verify_loop env ((name, url) # rest) all_ok =
     py_bind (check_url_accessible env url 5) (\<lambda>ok.
       if ok then
         py_seq (log_message env (check_mark @ '' '' @ name @ '' is accessible at '' @ url) ''SUCCESS'')
           (verify_loop env rest all_ok)
       else
         py_seq (log_message env (cross_mark @ '' '' @ name @ '' is NOT accessible at '' @ url) ''ERROR'')
           (verify_loop env rest False))"

definition verify_services :: "env \<Rightarrow> bool action" where
  "verify_services env =
     py_seq (log_message env ''Verifying services...'' ''INFO'')
    (py_bind (py_get exporter_url) (\<lambda>eu.
     py_bind (py_get prometheus_url) (\<lambda>pu.
     py_bind (py_get alertmanager_url) (\<lambda>au.
       verify_loop env
         [(''Windows Exporter'', eu), (''Prometheus'', pu), (''Alertmanager'', au)] True))))"

subsection \<open>start_all_services and stop_services\<close>

definition start_all_services :: "env \<Rightarrow> bool action" where
  "start_all_services env =
     py_seq (log_message env ''Starting monitoring system...'' ''INFO'')
    (py_bind (start_windows_exporter env) (\<lambda>exporter_ok.
       if \<not> exporter_ok then py_return False
       else py_bind (start_alertmanager env) (\<lambda>alertmanager_ok.
         if \<not> alertmanager_ok then py_return False
         else py_bind (start_prometheus env) (\<lambda>prometheus_ok.
           if \<not> prometheus_ok then py_return False
           else py_bind (verify_services env) (\<lambda>verified.
             if verified then
               py_seq (log_message env ''All services started successfully!'' ''SUCCESS'')
                 (py_return True)
             else
               py_seq (log_message env ''Some services failed to start'' ''ERROR'')
                 (py_return False))))))"

definition stop_services :: "env \<Rightarrow> unit action" where
  "stop_services env =
     py_seq (log_message env ''Stopping monitoring services...'' ''INFO'')
    (py_bind (py_get prometheus_process) (\<lambda>p.
     py_seq (case p of
               Some h \<Rightarrow> py_seq (emit (Terminate h)) (log_message env ''Prometheus stopped'' ''INFO'')
             | None \<Rightarrow> py_return ())
    (py_bind (py_get alertmanager_process) (\<lambda>a.
       case a of
         Some h \<Rightarrow> py_seq (emit (Terminate h)) (log_message env ''Alertmanager stopped'' ''INFO'')
       | None \<Rightarrow> py_return ()))))"

subsection \<open>Telemetry: get_system_metrics, check_alerts, open_dashboards\<close>

definition dq :: string where
  "dq = [CHR 0x22]"

definition newline :: string where
  "newline = [CHR 0x0A]"

definition rule60 :: string where
  "rule60 = replicate 60 (CHR ''='')"

definition queries :: "(string \<times> string) list" where
  "queries =
     [(''CPU Usage'',
       ''100 - (avg(rate(windows_cpu_time_total{mode='' @ dq @ ''idle'' @ dq @ ''}[1m])) * 100)''),
      (''Memory Usage'',
       ''100 - ((windows_memory_available_bytes / windows_memory_physical_total_bytes) * 100)''),
      (''Disk Usage'',
       ''100 - ((windows_logical_disk_free_bytes{volume='' @ dq @ ''C:'' @ dq
         @ ''} / windows_logical_disk_size_bytes{volume='' @ dq @ ''C:'' @ dq @ ''}) * 100)'')]"

definition response_json :: "nat \<times> (exn + pyval) \<Rightarrow> pyval action" where
  "response_json response = py_lift (snd response)"

text \<open>
  The body of the \<open>try\<close> inside the loop of \<open>get_system_metrics\<close>. Between
  \<open>response.json()\<close> and \<open>print\<close> the source only reads the decoded payload, so that part
  is a function of the payload: \<open>Inl e\<close> where a lookup or the conversion raises,
  \<open>Inr None\<close> where the condition of the \<open>if\<close> is false, \<open>Inr (Some text)\<close> with the
  rendered value otherwise.
\<close>

definition exn_bind :: "exn + 'a \<Rightarrow> ('a \<Rightarrow> exn + 'b) \<Rightarrow> exn + 'b" where
  "exn_bind r k = (case r of Inl e \<Rightarrow> Inl e | Inr v \<Rightarrow> k v)"

definition metric_text :: "env \<Rightarrow> pyval \<Rightarrow> exn + string option" where
  "metric_text env data =
     exn_bind (getitem_str data ''status'') (\<lambda>status.
       if status \<noteq> PStr ''success'' then Inr None
       else
         exn_bind (getitem_str data ''data'') (\<lambda>d.
         exn_bind (getitem_str d ''result'') (\<lambda>result.
           if \<not> truthy result then Inr None
           else
             exn_bind (getitem_str data ''data'') (\<lambda>d1.
             exn_bind (getitem_str d1 ''result'') (\<lambda>result1.
             exn_bind (getitem_int result1 0) (\<lambda>first.
             exn_bind (getitem_str first ''value'') (\<lambda>pair.
             exn_bind (getitem_int pair 1) (\<lambda>v.
             exn_bind (format_percent env v) (\<lambda>text.
               Inr (Some text))))))))))"

definition fetch_metric :: "env \<Rightarrow> string \<Rightarrow> string \<Rightarrow> string \<Rightarrow> unit action" where
  "fetch_metric env url name query =
     py_bind (requests_get env (url @ ''/api/v1/query'') [(''query'', query)] 5) (\<lambda>response.
     py_bind (response_json response) (\<lambda>data.
     py_bind (py_lift (metric_text env data)) (\<lambda>shown.
       case shown of
         None \<Rightarrow> py_return ()
       | Some text \<Rightarrow> print_line env (''  '' @ name @ '': '' @ text @ ''%''))))"

fun metrics_loop :: "env \<Rightarrow> string \<Rightarrow> (string \<times> string) list \<Rightarrow> unit action" where
  "metrics_loop env url [] = py_return ()"
| "metrics_loop env url ((name, query) # rest) =
     py_seq
       (py_try (fetch_metric env url name query)
          (\<lambda>e. print_line env (''  '' @ name @ '': Unable to fetch'')))
       (metrics_loop env url rest)"

definition get_system_metrics :: "env \<Rightarrow> unit action" where
  "get_system_metrics env =
     py_seq (log_message env ''Fetching system metrics...'' ''INFO'')
    (py_seq (print_line env (newline @ rule60))
    (py_seq (print_line env ''  CURRENT SYSTEM METRICS'')
    (py_seq (print_line env rule60)
    (py_bind (py_get prometheus_url) (\<lambda>url.
     py_seq (metrics_loop env url queries)
       (print_line env (rule60 @ newline)))))))"

text \<open>
  The body of the loop over the alerts reads the alert and renders the line before it
  prints it; \<open>alert_text\<close> is that reading, in the source's order of evaluation.
\<close>

definition alert_text :: "env \<Rightarrow> pyval \<Rightarrow> exn + string" where
  "alert_text env alert =
     exn_bind (getitem_str alert ''state'') (\<lambda>status.
     exn_bind (getitem_str alert ''labels'') (\<lambda>labels.
     exn_bind (getitem_str labels ''alertname'') (\<lambda>name.
     exn_bind (getitem_str alert ''labels'') (\<lambda>labels1.
     exn_bind (dict_get labels1 ''severity'' (PStr ''unknown'')) (\<lambda>severity.
     exn_bind (format_alert env name status severity) (\<lambda>rendered.
       Inr (''  '' @ rendered)))))))"

fun alerts_loop :: "env \<Rightarrow> pyval list \<Rightarrow> unit action" where
  "alerts_loop env [] = py_return ()"
| "alerts_loop env (alert # rest) =
     py_bind (py_lift (alert_text env alert)) (\<lambda>text.
     py_seq (print_line env text)
       (alerts_loop env rest))"

definition check_alerts :: "env \<Rightarrow> unit action" where
  "check_alerts env =
     py_try
       (py_bind (py_get prometheus_url) (\<lambda>url.
        py_bind (requests_get env (url @ ''/api/v1/alerts'') [] 5) (\<lambda>response.
          if fst response = 200 then
            py_bind (response_json response) (\<lambda>body.
            py_bind (py_lift (getitem_str body ''data'')) (\<lambda>d.
            py_bind (py_lift (getitem_str d ''alerts'')) (\<lambda>alerts.
            py_seq (print_line env (newline @ rule60))
           (py_seq (print_line env ''  ALERT STATUS'')
           (py_seq (print_line env rule60)
           (py_seq
              (if \<not> truthy alerts then print_line env ''  No active alerts''
               else py_bind (py_lift (py_iter alerts)) (alerts_loop env))
              (print_line env rule60)))))))
          else log_message env ''Failed to fetch alerts'' ''ERROR'')))
       (\<lambda>e. log_message env (''Error checking alerts: '' @ str_exn e) ''ERROR'')"

definition webbrowser_open :: "env \<Rightarrow> string \<Rightarrow> bool action" where
  "webbrowser_open env url s = (browser_reply env url, s\<lparr>trace := trace s @ [BrowserOpen url]\<rparr>)"

definition open_dashboards :: "env \<Rightarrow> unit action" where
  "open_dashboards env =
     py_seq (log_message env ''Opening monitoring dashboards...'' ''INFO'')
    (py_try
       (py_bind (py_get dashboard_path) (\<lambda>path.
        let dashboard_url = ''file:///'' @ os_path_abspath env path
        in py_bind (webbrowser_open env dashboard_url) (\<lambda>opened.
             log_message env (''Opened HTML Dashboard: '' @ dashboard_url) ''SUCCESS'')))
       (\<lambda>e. log_message env (''Failed to open HTML dashboard: '' @ str_exn e) ''ERROR''))"

subsection \<open>The constructor\<close>

definition bs :: string where
  "bs = [CHR 0x5C]"

fun first_existing :: "env \<Rightarrow> string list \<Rightarrow> string option" where
  "first_existing env [] = None"
| "first_existing env (path # rest) =
     (if os_path_exists env path then Some path else first_existing env rest)"

definition find_prometheus_executable :: "env \<Rightarrow> string" where
  "find_prometheus_executable env =
     (let possible_paths =
        [os_path_join env [os_getcwd env, ''prometheus-3.7.2.windows-amd64'', ''prometheus.exe''],
         ''E:'' @ bs @ ''data'' @ bs @ ''dsatm'' @ bs @ ''7th sem'' @ bs @ ''Workshop'' @ bs
           @ ''Workshop-Project'' @ bs @ ''prometheus-3.7.2.windows-amd64'' @ bs @ ''prometheus.exe'',
         os_path_join env [os_getcwd env, ''prometheus.exe''],
         ''C:'' @ bs @ ''prometheus'' @ bs @ ''prometheus.exe'']
      in case first_existing env possible_paths of
           Some path \<Rightarrow> path
         | None \<Rightarrow> hd possible_paths)"

definition find_alertmanager_executable :: "env \<Rightarrow> string" where
  "find_alertmanager_executable env =
     (let possible_paths =
        [os_path_join env [os_getcwd env, ''alertmanager-0.28.1.windows-amd64'', ''alertmanager.exe''],
         os_path_join env [os_getcwd env, ''alertmanager.exe''],
         ''C:'' @ bs @ ''alertmanager'' @ bs @ ''alertmanager.exe'']
      in case first_existing env possible_paths of
           Some path \<Rightarrow> path
         | None \<Rightarrow> hd possible_paths)"

definition init :: "env \<Rightarrow> monitor" where
  "init env =
     \<lparr> prometheus_path = find_prometheus_executable env,
       alertmanager_path = find_alertmanager_executable env,
       windows_exporter_service = ''windows_exporter'',
       dashboard_path = os_path_join env [os_getcwd env, ''dashboard.html''],
       config_file = os_path_join env [os_getcwd env, ''prometheus.yml''],
       prometheus_url = ''http://localhost:9090'',
       alertmanager_url = ''http://localhost:9093'',
       exporter_url = ''http://localhost:9182/metrics'',
       prometheus_process = None,
       alertmanager_process = None,
       log_file = os_path_join env [os_getcwd env, ''monitoring.log''],
       trace = [] \<rparr>"

subsection \<open>Reading the environment\<close>

text \<open>
  \<open>probe_ok env n url timeout\<close>: the request numbered \<open>n\<close>, when it is a plain GET of
  \<open>url\<close>, is answered with HTTP status 200.
\<close>

definition probe_ok :: "env \<Rightarrow> nat \<Rightarrow> string \<Rightarrow> nat \<Rightarrow> bool" where
  "probe_ok env n url timeout =
     (case http_reply env n url [] timeout of
        Response code body \<Rightarrow> code = 200
      | RequestRaised e \<Rightarrow> False)"

text \<open>
  \<open>first_ready_at env n url k\<close>: of the probes of \<open>url\<close> that are the requests numbered
  \<open>n\<close>, \<open>n + 1\<close>, ..., the \<open>k\<close>-th (counted from 1) is the first to be answered 200;
  \<open>never_ready env n url m\<close>: none of the first \<open>m\<close> of them is.
\<close>

definition first_ready_at :: "env \<Rightarrow> nat \<Rightarrow> string \<Rightarrow> nat \<Rightarrow> bool" where
  "first_ready_at env n url k =
     (1 \<le> k \<and> list_all (\<lambda>j. \<not> probe_ok env (n + j) url 5) [0..<k - 1]
      \<and> probe_ok env (n + (k - 1)) url 5)"

definition never_ready :: "env \<Rightarrow> nat \<Rightarrow> string \<Rightarrow> nat \<Rightarrow> bool" where
  "never_ready env n url m = list_all (\<lambda>j. \<not> probe_ok env (n + j) url 5) [0..<m]"

text \<open>
  The launch surface: the command line and working directory of each executable, and
  the condition under which a stage launches its process and \<open>Popen\<close> returns the
  handle \<open>h\<close> (the URL does not answer 200, the executable exists, the launch succeeds).
\<close>

definition alertmanager_cmd :: "env \<Rightarrow> monitor \<Rightarrow> string list" where
  "alertmanager_cmd env s =
     [alertmanager_path s,
      ''--config.file=''
        @ os_path_join env [os_path_dirname env (alertmanager_path s), ''alertmanager.yml'']]"

definition alertmanager_cwd :: "env \<Rightarrow> monitor \<Rightarrow> string" where
  "alertmanager_cwd env s = os_path_dirname env (alertmanager_path s)"

definition prometheus_cmd :: "monitor \<Rightarrow> string list" where
  "prometheus_cmd s = [prometheus_path s, ''--config.file='' @ config_file s]"

definition prometheus_cwd :: "env \<Rightarrow> monitor \<Rightarrow> string" where
  "prometheus_cwd env s =
     (if os_path_dirname env (prometheus_path s) \<noteq> []
      then os_path_dirname env (prometheus_path s) else os_getcwd env)"

definition alertmanager_attempted :: "env \<Rightarrow> monitor \<Rightarrow> bool" where
  "alertmanager_attempted env s =
     (\<not> probe_ok env (http_count s) (alertmanager_url s) 5
      \<and> os_path_exists env (alertmanager_path s))"

definition prometheus_attempted :: "env \<Rightarrow> monitor \<Rightarrow> bool" where
  "prometheus_attempted env s =
     (\<not> probe_ok env (http_count s) (prometheus_url s) 5
      \<and> os_path_exists env (prometheus_path s))"

definition launches_alertmanager :: "env \<Rightarrow> monitor \<Rightarrow> nat \<Rightarrow> bool" where
  "launches_alertmanager env s h =
     (alertmanager_attempted env s
      \<and> popen_reply env (popen_count s) (alertmanager_cmd env s) (alertmanager_cwd env s) = Inr h)"

definition launches_prometheus :: "env \<Rightarrow> monitor \<Rightarrow> nat \<Rightarrow> bool" where
  "launches_prometheus env s h =
     (prometheus_attempted env s
      \<and> popen_reply env (popen_count s) (prometheus_cmd s) (prometheus_cwd env s) = Inr h)"

text \<open>The events of a poll cycle: the sleep and the probe.\<close>

fun is_cycle :: "event \<Rightarrow> bool" where
  "is_cycle (Sleep n) = True"
| "is_cycle (HttpGet url params timeout) = True"
| "is_cycle e = False"

text \<open>
  A small world to run the launcher in: nothing answers on HTTP, the exporter service is
  stopped and accepts a start command, both executables exist and launch, stdout is
  UTF-8. In
  \<open>up_after m\<close> the first \<open>m\<close> requests are refused and every later one is answered
  with status 200 and a body that is not JSON.
\<close>

definition refused :: http_outcome where
  "refused = RequestRaised (Exn ''ConnectionError'' ''connection refused'')"

definition plain_200 :: http_outcome where
  "plain_200 = Response 200 (Inl (Exn ''JSONDecodeError'' ''Expecting value''))"

definition env0 :: env where
  "env0 =
     \<lparr> http_reply = (\<lambda>n url params timeout. refused),
       run_reply = (\<lambda>n cmd. if n = 0 then Inr ''STATE : 1  STOPPED'' else Inr ''STATE : 2  START_PENDING''),
       popen_reply = (\<lambda>n cmd cwd. Inr (100 + n)),
       browser_reply = (\<lambda>url. Inr True),
       os_path_exists = (\<lambda>path. True),
       os_path_dirname = (\<lambda>path. ''C:'' @ bs @ ''monitoring''),
       os_path_join = (\<lambda>parts. foldr (\<lambda>part acc. if acc = [] then part else part @ bs @ acc) parts []),
       os_path_abspath = (\<lambda>path. path),
       os_getcwd = ''C:'' @ bs @ ''monitoring'',
       format_percent = (\<lambda>v. case v of PStr text \<Rightarrow> Inr text
                                | _ \<Rightarrow> Inl (Exn ''TypeError'' ''float() argument must be a string or a real number'')),
       format_alert = (\<lambda>name status severity.
                         case (name, status) of
                           (PStr n, PStr st) \<Rightarrow> Inr (n @ '': '' @ st)
                         | _ \<Rightarrow> Inl (Exn ''AttributeError'' ''object has no attribute upper'')),
       stdout_unicode = True \<rparr>"

definition up_after :: "nat \<Rightarrow> env" where
  "up_after m = env0\<lparr>http_reply := \<lambda>n url params timeout. if n < m then refused else plain_200\<rparr>"

text \<open>
  \<open>service_running env n service\<close>: the \<open>subprocess.run\<close> numbered \<open>n\<close>, when it is
  \<open>sc query service\<close>, returns an output containing \<open>RUNNING\<close>;
  \<open>start_accepted env n service\<close>: when it is \<open>sc start service\<close>, it returns an output
  containing \<open>START_PENDING\<close> or \<open>RUNNING\<close>.
\<close>

definition service_running :: "env \<Rightarrow> nat \<Rightarrow> string \<Rightarrow> bool" where
  "service_running env n service =
     (case run_reply env n [''sc'', ''query'', service] of
        Inl e \<Rightarrow> False
      | Inr stdout \<Rightarrow> str_in ''RUNNING'' stdout)"

definition start_accepted :: "env \<Rightarrow> nat \<Rightarrow> string \<Rightarrow> bool" where
  "start_accepted env n service =
     (case run_reply env n [''sc'', ''start'', service] of
        Inl e \<Rightarrow> False
      | Inr stdout \<Rightarrow> str_in ''START_PENDING'' stdout \<or> str_in ''RUNNING'' stdout)"


text \<open>
  What one entry of \<open>get_system_metrics\<close> shows for a given reply to its query:
  \<open>entry_result\<close> is the outcome of \<open>response.json()\<close> followed by \<open>metric_text\<close>,
  \<open>entry_events\<close> the request and the line printed for it.
\<close>

definition entry_result :: "env \<Rightarrow> http_outcome \<Rightarrow> exn + string option" where
  "entry_result env reply =
     (case reply of
        RequestRaised e \<Rightarrow> Inl e
      | Response code body \<Rightarrow> exn_bind body (metric_text env))"

definition entry_lines :: "string \<Rightarrow> exn + string option \<Rightarrow> event list" where
  "entry_lines name r =
     (case r of
        Inl e \<Rightarrow> [Print (''  '' @ name @ '': Unable to fetch'')]
      | Inr None \<Rightarrow> []
      | Inr (Some text) \<Rightarrow> [Print (''  '' @ name @ '': '' @ text @ ''%'')])"

definition entry_events :: "env \<Rightarrow> string \<Rightarrow> nat \<Rightarrow> string \<times> string \<Rightarrow> event list" where
  "entry_events env url n entry =
     HttpGet (url @ ''/api/v1/query'') [(''query'', snd entry)] 5
       # entry_lines (fst entry)
           (entry_result env (http_reply env n (url @ ''/api/v1/query'') [(''query'', snd entry)] 5))"

fun is_output :: "event \<Rightarrow> bool" where
  "is_output (Print text) = True"
| "is_output (Log status message) = True"
| "is_output e = False"

fun is_terminate :: "event \<Rightarrow> bool" where
  "is_terminate (Terminate h) = True"
| "is_terminate e = False"

text \<open>
  In \<open>router_missing\<close> the exporter is reported \<open>RUNNING\<close>, nothing answers on HTTP
  and no executable is found on disk.
\<close>

definition router_missing :: env where
  "router_missing = env0
     \<lparr> run_reply := \<lambda>n cmd. Inr ''STATE : 4  RUNNING'',
       os_path_exists := \<lambda>path. False \<rparr>"

text \<open>
  In \<open>all_up\<close> the exporter is reported \<open>RUNNING\<close> and every URL answers 200; in
  \<open>start_denied\<close> the exporter is stopped and the service manager rejects the start
  command.
\<close>

definition all_up :: env where
  "all_up = env0
     \<lparr> http_reply := \<lambda>n url params timeout. plain_200,
       run_reply := \<lambda>n cmd. Inr ''STATE : 4  RUNNING'' \<rparr>"

text \<open>
  \<open>legacy_console\<close> is \<open>all_up\<close> with a stdout whose encoding lacks U+2713 and U+2717.
\<close>

definition legacy_console :: env where
  "legacy_console = all_up \<lparr> stdout_unicode := False \<rparr>"

definition start_denied :: env where
  "start_denied = env0
     \<lparr> run_reply := \<lambda>n cmd.
         if n = 0 then Inr ''STATE : 1  STOPPED'' else Inr ''[SC] StartService FAILED 5: Access is denied.'' \<rparr>"

text \<open>
  Replies for the telemetry queries: a well-formed instant-vector answer, and the error
  payload Prometheus sends for a query it rejects. In \<open>telemetry_mixed\<close> the first
  request gets the former, the second the latter (with status 422), the third is
  refused, and every later request is answered 200 with a body that is not JSON.
\<close>

definition vector_payload :: pyval where
  "vector_payload =
     PDict [(''status'', PStr ''success''),
            (''data'', PDict [(''resultType'', PStr ''vector''),
                              (''result'', PList [PDict [(''metric'', PDict []),
                                                        (''value'', PList [PInt 1700000000, PStr ''12.5''])]])])]"

definition error_payload :: pyval where
  "error_payload =
     PDict [(''status'', PStr ''error''), (''errorType'', PStr ''bad_data''),
            (''error'', PStr ''invalid parameter query'')]"

definition empty_payload :: pyval where
  "empty_payload =
     PDict [(''status'', PStr ''success''),
            (''data'', PDict [(''resultType'', PStr ''vector''), (''result'', PList [])])]"

definition telemetry_mixed :: env where
  "telemetry_mixed = env0
     \<lparr> http_reply := \<lambda>n url params timeout.
         if n = 0 then Response 200 (Inr vector_payload)
         else if n = 1 then Response 422 (Inr error_payload)
         else if n = 2 then refused
         else plain_200 \<rparr>"

definition telemetry_empty :: env where
  "telemetry_empty = env0 \<lparr> http_reply := \<lambda>n url params timeout. Response 200 (Inr empty_payload) \<rparr>"

text \<open>
  What \<open>check_alerts\<close> reports for a given reply to its request. \<open>alert_error e\<close> is the
  report of the \<open>except\<close> clause; \<open>alert_lines\<close> is the table body: one line per alert
  up to the first alert that cannot be rendered, closed by the rule or cut short by the
  error report; \<open>alert_events\<close> is everything after the request.
\<close>

definition alert_error :: "exn \<Rightarrow> event" where
  "alert_error e = Log ''ERROR'' (''Error checking alerts: '' @ str_exn e)"

fun alert_lines :: "env \<Rightarrow> pyval list \<Rightarrow> event list" where
  "alert_lines env [] = [Print rule60]"
| "alert_lines env (alert # rest) =
     (case alert_text env alert of
        Inl e \<Rightarrow> [alert_error e]
      | Inr line \<Rightarrow> Print line # alert_lines env rest)"

definition alert_events :: "env \<Rightarrow> http_outcome \<Rightarrow> event list" where
  "alert_events env reply =
     (case reply of
        RequestRaised e \<Rightarrow> [alert_error e]
      | Response code body \<Rightarrow>
          if code \<noteq> 200 then [Log ''ERROR'' ''Failed to fetch alerts'']
          else
            (case exn_bind body (\<lambda>payload.
                    exn_bind (getitem_str payload ''data'') (\<lambda>d. getitem_str d ''alerts'')) of
               Inl e \<Rightarrow> [alert_error e]
             | Inr alerts \<Rightarrow>
                 [Print (newline @ rule60), Print ''  ALERT STATUS'', Print rule60]
                 @ (if \<not> truthy alerts then [Print ''  No active alerts'', Print rule60]
                    else case py_iter alerts of
                           Inl e \<Rightarrow> [alert_error e]
                         | Inr items \<Rightarrow> alert_lines env items)))"




text \<open>The two process handles of the object, and a state in which both are populated.\<close>

definition handles :: "monitor \<Rightarrow> nat option \<times> nat option" where
  "handles s = (prometheus_process s, alertmanager_process s)"

definition both_launched :: monitor where
  "both_launched = (init env0)\<lparr>prometheus_process := Some 101, alertmanager_process := Some 100\<rparr>"

section \<open>Properties\<close>

subsection \<open>Bookkeeping\<close>

lemmas monad_defs = py_return_def py_raise_def py_bind_def py_seq_def py_try_def py_lift_def
  py_get_def emit_def log_message_def print_line_def time_sleep_def stdout_write_def

lemma has_glyph_Nil [simp]: "\<not> has_glyph []"
  by (simp add: has_glyph_def check_mark_def cross_mark_def)

lemma has_glyph_Cons [simp]:
  "has_glyph (c # cs) \<longleftrightarrow>
     c = CHR 0xE2 \<and> (starts_with [CHR 0x9C, CHR 0x93] cs \<or> starts_with [CHR 0x9C, CHR 0x97] cs)"
  by (auto simp add: has_glyph_def check_mark_def cross_mark_def)

lemma has_glyph_marks [simp]:
  "has_glyph (check_mark @ text)" "has_glyph (cross_mark @ text)"
  by (simp_all add: check_mark_def cross_mark_def)

lemma rule60_head: "rule60 = CHR ''='' # replicate 59 (CHR ''='')"
  by (simp add: rule60_def eval_nat_numeral)

lemma has_glyph_rules [simp]:
  "\<not> has_glyph rule60" "\<not> has_glyph (rule60 @ text)" "\<not> has_glyph (newline @ text)"
  by (simp_all add: rule60_head newline_def)

lemma http_count_append [simp]:
  "http_count (s\<lparr>trace := trace s @ evs\<rparr>) = http_count s + length (filter is_http evs)"
  by (simp add: http_count_def)

lemma run_count_append [simp]:
  "run_count (s\<lparr>trace := trace s @ evs\<rparr>) = run_count s + length (filter is_run evs)"
  by (simp add: run_count_def)

lemma popen_count_append [simp]:
  "popen_count (s\<lparr>trace := trace s @ evs\<rparr>) = popen_count s + length (filter is_popen evs)"
  by (simp add: popen_count_def)

lemma http_count_init [simp]: "http_count (init env) = 0"
  by (simp add: http_count_def init_def)

lemma run_count_init [simp]: "run_count (init env) = 0"
  by (simp add: run_count_def init_def)

lemma popen_count_init [simp]: "popen_count (init env) = 0"
  by (simp add: popen_count_def init_def)

subsection \<open>The probe\<close>

lemma check_url_accessible_eq:
  "check_url_accessible env url timeout s =
     (Inr (probe_ok env (http_count s) url timeout), s\<lparr>trace := trace s @ [HttpGet url [] timeout]\<rparr>)"
  by (simp add: check_url_accessible_def requests_get_def probe_ok_def monad_defs Let_def
      split: http_outcome.splits)

text \<open>
  C5. For every URL and timeout, \<open>check_url_accessible\<close> issues one GET request, never
  raises, and returns \<open>True\<close> exactly when the request completes with status 200: a request
  that raises (transport error, timeout) and a response with another status both give
  \<open>False\<close>.
\<close>

theorem check_url_accessible_status_200:
  "\<exists>b s'. check_url_accessible env url timeout s = (Inr b, s')
     \<and> (b \<longleftrightarrow> (\<exists>body. http_reply env (http_count s) url [] timeout = Response 200 body))
     \<and> trace s' = trace s @ [HttpGet url [] timeout]"
  by (auto simp add: check_url_accessible_eq probe_ok_def split: http_outcome.splits)

theorem check_url_accessible_status_200_witness:
  "fst (check_url_accessible env0 ''http://localhost:9090'' 5 (init env0)) = Inr False
   \<and> fst (check_url_accessible (up_after 0) ''http://localhost:9090'' 5 (init env0)) = Inr True"
  using check_url_accessible_status_200 [of env0 "''http://localhost:9090''" 5 "init env0"]
    check_url_accessible_status_200 [of "up_after 0" "''http://localhost:9090''" 5 "init env0"]
  by (auto simp add: env0_def up_after_def refused_def plain_200_def)

subsection \<open>The readiness poll\<close>

lemma wait_ready_exhausted:
  "\<forall>j<length idxs. \<not> probe_ok env (http_count s + j) url 5 \<Longrightarrow>
   \<exists>evs. wait_ready env name url interval max_retries idxs s = (Inr False, s\<lparr>trace := trace s @ evs\<rparr>)
     \<and> filter is_cycle evs = concat (replicate (length idxs) [Sleep interval, HttpGet url [] 5])"
proof (induction idxs arbitrary: s)
  case Nil
  show ?case by (intro exI [of _ "[]"]) (simp add: py_return_def)
next
  case (Cons i rest)
  let ?s2 = "s\<lparr>trace := trace s @ [Sleep interval, HttpGet url [] 5,
      Log ''INFO'' (''Waiting for '' @ name @ ''... ('' @ str_nat (i + 1) @ ''/'' @ str_nat max_retries @ '')'')]\<rparr>"
  from Cons.prems have first: "\<not> probe_ok env (http_count s) url 5"
    by (metis add.right_neutral length_greater_0_conv list.discI)
  have "\<forall>j<length rest. \<not> probe_ok env (http_count ?s2 + j) url 5"
    using Cons.prems by auto
  from Cons.IH [OF this] obtain evs where
    run: "wait_ready env name url interval max_retries rest ?s2 = (Inr False, ?s2\<lparr>trace := trace ?s2 @ evs\<rparr>)"
    and cyc: "filter is_cycle evs = concat (replicate (length rest) [Sleep interval, HttpGet url [] 5])"
    by blast
  have "wait_ready env name url interval max_retries (i # rest) s
      = wait_ready env name url interval max_retries rest ?s2"
    using first by (simp add: check_url_accessible_eq monad_defs)
  with run cyc show ?case
    by (intro exI [of _ "[Sleep interval, HttpGet url [] 5,
      Log ''INFO'' (''Waiting for '' @ name @ ''... ('' @ str_nat (i + 1) @ ''/'' @ str_nat max_retries @ '')'')] @ evs"]) simp
qed

lemma wait_ready_first_success:
  assumes name: "\<not> has_glyph (name @ '' started successfully'')"
  shows "k < length idxs \<Longrightarrow> \<forall>j<k. \<not> probe_ok env (http_count s + j) url 5 \<Longrightarrow>
   probe_ok env (http_count s + k) url 5 \<Longrightarrow>
   \<exists>evs. wait_ready env name url interval max_retries idxs s = (Inr True, s\<lparr>trace := trace s @ evs\<rparr>)
     \<and> filter is_cycle evs = concat (replicate (Suc k) [Sleep interval, HttpGet url [] 5])"
proof (induction idxs arbitrary: s k)
  case Nil
  then show ?case by simp
next
  case (Cons i rest)
  show ?case
  proof (cases k)
    case 0
    with Cons.prems have "probe_ok env (http_count s) url 5" by simp
    then show ?thesis using 0 name
      by (intro exI [of _ "[Sleep interval, HttpGet url [] 5,
            Log ''SUCCESS'' (name @ '' started successfully'')]"])
         (simp add: check_url_accessible_eq monad_defs)
  next
    case (Suc k')
    let ?s2 = "s\<lparr>trace := trace s @ [Sleep interval, HttpGet url [] 5,
      Log ''INFO'' (''Waiting for '' @ name @ ''... ('' @ str_nat (i + 1) @ ''/'' @ str_nat max_retries @ '')'')]\<rparr>"
    from Cons.prems Suc have first: "\<not> probe_ok env (http_count s) url 5"
      by (metis add.right_neutral zero_less_Suc)
    have a: "k' < length rest" using Cons.prems Suc by simp
    have b: "\<forall>j<k'. \<not> probe_ok env (http_count ?s2 + j) url 5"
      using Cons.prems Suc by auto
    have c: "probe_ok env (http_count ?s2 + k') url 5"
      using Cons.prems Suc by simp
    from Cons.IH [OF a b c] obtain evs where
      run: "wait_ready env name url interval max_retries rest ?s2 = (Inr True, ?s2\<lparr>trace := trace ?s2 @ evs\<rparr>)"
      and cyc: "filter is_cycle evs = concat (replicate (Suc k') [Sleep interval, HttpGet url [] 5])"
      by blast
    have "wait_ready env name url interval max_retries (i # rest) s
        = wait_ready env name url interval max_retries rest ?s2"
      using first by (simp add: check_url_accessible_eq monad_defs)
    with run cyc Suc show ?thesis
      by (intro exI [of _ "[Sleep interval, HttpGet url [] 5,
        Log ''INFO'' (''Waiting for '' @ name @ ''... ('' @ str_nat (i + 1) @ ''/'' @ str_nat max_retries @ '')'')] @ evs"]) simp
  qed
qed

subsection \<open>The stages\<close>

lemma wait_ready_frame:
  assumes name: "\<not> has_glyph (name @ '' started successfully'')"
  shows "\<exists>b evs. wait_ready env name url interval max_retries idxs s = (Inr b, s\<lparr>trace := trace s @ evs\<rparr>)
     \<and> filter is_popen evs = [] \<and> filter is_run evs = []"
proof (induction idxs arbitrary: s)
  case Nil
  show ?case by (intro exI [of _ False] exI [of _ "[]"]) (simp add: py_return_def)
next
  case (Cons i rest)
  show ?case
  proof (cases "probe_ok env (http_count s) url 5")
    case True
    with name show ?thesis
      by (intro exI [of _ True] exI [of _ "[Sleep interval, HttpGet url [] 5,
            Log ''SUCCESS'' (name @ '' started successfully'')]"])
         (simp add: check_url_accessible_eq monad_defs)
  next
    case False
    let ?pre = "[Sleep interval, HttpGet url [] 5,
      Log ''INFO'' (''Waiting for '' @ name @ ''... ('' @ str_nat (i + 1) @ ''/'' @ str_nat max_retries @ '')'')]"
    let ?s2 = "s\<lparr>trace := trace s @ ?pre\<rparr>"
    from Cons.IH [of ?s2] obtain b evs where
      run: "wait_ready env name url interval max_retries rest ?s2 = (Inr b, ?s2\<lparr>trace := trace ?s2 @ evs\<rparr>)"
      and no: "filter is_popen evs = []" "filter is_run evs = []"
      by blast
    have "wait_ready env name url interval max_retries (i # rest) s
        = wait_ready env name url interval max_retries rest ?s2"
      using False by (simp add: check_url_accessible_eq monad_defs)
    with run no show ?thesis
      by (intro exI [of _ b] exI [of _ "?pre @ evs"]) simp
  qed
qed

lemma check_service_running_eq:
  "\<exists>evs. check_service_running env service s =
      (Inr (service_running env (run_count s) service), s\<lparr>trace := trace s @ evs\<rparr>)
     \<and> filter is_run evs = [Run [''sc'', ''query'', service]]
     \<and> filter is_popen evs = [] \<and> filter is_http evs = [] \<and> filter is_sleep evs = []
     \<and> (service_running env (run_count s) service \<longrightarrow> evs = [Run [''sc'', ''query'', service]])"
proof (cases "run_reply env (run_count s) [''sc'', ''query'', service]")
  case (Inl e)
  then show ?thesis
    by (intro exI [of _ "[Run [''sc'', ''query'', service],
          Log ''ERROR'' (''Error checking service '' @ service @ '': '' @ str_exn e)]"])
       (simp add: check_service_running_def subprocess_run_def service_running_def monad_defs)
next
  case (Inr stdout)
  then show ?thesis
    by (intro exI [of _ "[Run [''sc'', ''query'', service]]"])
       (simp add: check_service_running_def subprocess_run_def service_running_def monad_defs)
qed

lemma start_windows_exporter_running:
  assumes "service_running env (run_count s) (windows_exporter_service s)"
  shows "start_windows_exporter env s =
     (Inr True, s\<lparr>trace := trace s @
        [Log ''INFO'' ''Checking Windows Exporter service...'',
         Run [''sc'', ''query'', windows_exporter_service s],
         Log ''SUCCESS'' ''Windows Exporter is already running'']\<rparr>)"
proof -
  let ?s1 = "s\<lparr>trace := trace s @ [Log ''INFO'' ''Checking Windows Exporter service...'']\<rparr>"
  from check_service_running_eq [of env "windows_exporter_service s" ?s1] assms
  have "check_service_running env (windows_exporter_service s) ?s1 =
      (Inr True, ?s1\<lparr>trace := trace ?s1 @ [Run [''sc'', ''query'', windows_exporter_service s]]\<rparr>)"
    by auto
  then show ?thesis
    by (simp add: start_windows_exporter_def monad_defs)
qed

lemma start_windows_exporter_stopped:
  assumes "\<not> service_running env (run_count s) (windows_exporter_service s)"
  shows "\<exists>evs. start_windows_exporter env s =
      (Inr (start_accepted env (run_count s + 1) (windows_exporter_service s)),
       s\<lparr>trace := trace s @ evs\<rparr>)
     \<and> filter is_run evs = [Run [''sc'', ''query'', windows_exporter_service s],
                             Run [''sc'', ''start'', windows_exporter_service s]]
     \<and> filter is_sleep evs =
         (if start_accepted env (run_count s + 1) (windows_exporter_service s) then [Sleep 3] else [])
     \<and> filter is_popen evs = [] \<and> filter is_http evs = []"
proof -
  let ?svc = "windows_exporter_service s"
  let ?s1 = "s\<lparr>trace := trace s @ [Log ''INFO'' ''Checking Windows Exporter service...'']\<rparr>"
  from check_service_running_eq [of env ?svc ?s1] assms obtain evs where
    q: "check_service_running env ?svc ?s1 = (Inr False, ?s1\<lparr>trace := trace ?s1 @ evs\<rparr>)"
    and evs: "filter is_run evs = [Run [''sc'', ''query'', ?svc]]" "filter is_popen evs = []"
      "filter is_http evs = []" "filter is_sleep evs = []"
    by auto
  let ?pre = "Log ''INFO'' ''Checking Windows Exporter service...'' # evs
                @ [Log ''INFO'' ''Starting Windows Exporter service...'', Run [''sc'', ''start'', ?svc]]"
  show ?thesis
  proof (cases "run_reply env (run_count s + 1) [''sc'', ''start'', ?svc]")
    case (Inl e)
    then show ?thesis using q evs
      by (intro exI [of _ "?pre @ [Log ''ERROR'' (''Error starting Windows Exporter: '' @ str_exn e),
              Log ''WARNING'' ''Try running this script as Administrator'']"])
         (simp add: start_windows_exporter_def subprocess_run_def start_accepted_def monad_defs)
  next
    case (Inr stdout)
    show ?thesis
    proof (cases "str_in ''START_PENDING'' stdout \<or> str_in ''RUNNING'' stdout")
      case True
      then show ?thesis using q evs Inr
        by (intro exI [of _ "?pre @ [Sleep 3, Log ''SUCCESS'' ''Windows Exporter started successfully'']"])
           (simp add: start_windows_exporter_def subprocess_run_def start_accepted_def monad_defs)
    next
      case False
      then show ?thesis using q evs Inr
        by (intro exI [of _ "?pre @ [Log ''ERROR'' (''Failed to start Windows Exporter: '' @ stdout)]"])
           (simp add: start_windows_exporter_def subprocess_run_def start_accepted_def monad_defs)
    qed
  qed
qed


lemma start_alertmanager_reachable:
  assumes "probe_ok env (http_count s) (alertmanager_url s) 5"
  shows "start_alertmanager env s =
     (Inr True, s\<lparr>trace := trace s @
        [Log ''INFO'' ''Checking Alertmanager...'',
         HttpGet (alertmanager_url s) [] 5,
         Log ''SUCCESS'' ''Alertmanager is already running'']\<rparr>)"
  using assms by (simp add: start_alertmanager_def check_url_accessible_eq monad_defs)


lemma start_alertmanager_frame:
  "\<exists>b evs ap. start_alertmanager env s =
       (Inr b, s\<lparr>alertmanager_process := ap, trace := trace s @ evs\<rparr>)
     \<and> (ap = alertmanager_process s \<or> (\<exists>h. ap = Some h))
     \<and> (\<forall>cmd cwd. Popen cmd cwd \<in> set evs \<longrightarrow> hd cmd = alertmanager_path s)
     \<and> filter is_run evs = []
     \<and> (\<not> b \<longrightarrow> evs \<noteq> [] \<and> (\<exists>msg. last evs = Log ''ERROR'' msg))"
proof (cases "probe_ok env (http_count s) (alertmanager_url s) 5")
  case True
  show ?thesis
    unfolding start_alertmanager_reachable [OF True]
    by (intro exI [of _ True] exI [of _ "[Log ''INFO'' ''Checking Alertmanager...'',
         HttpGet (alertmanager_url s) [] 5,
         Log ''SUCCESS'' ''Alertmanager is already running'']"] exI [of _ "alertmanager_process s"])
       simp
next
  case False
  let ?url = "alertmanager_url s"
  let ?path = "alertmanager_path s"
  let ?pre = "[Log ''INFO'' ''Checking Alertmanager...'', HttpGet ?url [] 5]"
  show ?thesis
  proof (cases "os_path_exists env ?path")
    case missing: False
    with False show ?thesis
      by (intro exI [of _ False]
            exI [of _ "?pre @ [Log ''ERROR'' (''Alertmanager not found at: '' @ ?path)]"]
            exI [of _ "alertmanager_process s"])
         (simp add: start_alertmanager_def check_url_accessible_eq monad_defs)
  next
    case True
    let ?dir = "os_path_dirname env ?path"
    let ?cmd = "[?path, ''--config.file='' @ os_path_join env [?dir, ''alertmanager.yml'']]"
    let ?pre2 = "?pre @ [Log ''INFO'' ''Starting Alertmanager...'', Popen ?cmd ?dir]"
    show ?thesis
    proof (cases "popen_reply env (popen_count s) ?cmd ?dir")
      case (Inl e)
      with False True show ?thesis
        by (intro exI [of _ False]
              exI [of _ "?pre2 @ [Log ''ERROR'' (''Error starting Alertmanager: '' @ str_exn e)]"]
              exI [of _ "alertmanager_process s"])
           (simp add: start_alertmanager_def check_url_accessible_eq subprocess_Popen_def
              monad_defs Let_def)
    next
      case (Inr h)
      let ?s3 = "s\<lparr>trace := trace s @ ?pre2, alertmanager_process := Some h\<rparr>"
      have plain: "\<not> has_glyph (''Alertmanager'' @ '' started successfully'')" by simp
      from wait_ready_frame [OF plain, of env ?url 2 10 "[0..<10]" ?s3]
      obtain b evs where
        run: "wait_ready env ''Alertmanager'' ?url 2 10 [0..<10] ?s3 = (Inr b, ?s3\<lparr>trace := trace ?s3 @ evs\<rparr>)"
        and no: "filter is_popen evs = []" "filter is_run evs = []"
        by blast
      have nopopen: "\<And>cmd cwd. Popen cmd cwd \<notin> set evs"
      proof
        fix cmd cwd assume "Popen cmd cwd \<in> set evs"
        then have "Popen cmd cwd \<in> set (filter is_popen evs)" by simp
        with no show False by simp
      qed
      note defs = start_alertmanager_def check_url_accessible_eq subprocess_Popen_def
              set_alertmanager_process_def monad_defs Let_def
      show ?thesis
      proof (cases b)
        case yes: True
        from False True Inr run no nopopen yes show ?thesis
          by (intro exI [of _ True] exI [of _ "?pre2 @ evs"] exI [of _ "Some h"])
             (simp add: defs del: wait_ready.simps upt_Suc)
      next
        case timeout: False
        from False True Inr run no nopopen timeout show ?thesis
          by (intro exI [of _ False]
                exI [of _ "?pre2 @ evs @ [Log ''ERROR'' ''Alertmanager failed to start within timeout'']"]
                exI [of _ "Some h"])
             (simp add: defs del: wait_ready.simps upt_Suc)
      qed
    qed
  qed
qed

subsection \<open>The final verification\<close>

lemma verify_loop_eq:
  assumes utf8: "stdout_unicode env"
  shows "\<exists>evs. verify_loop env services all_ok s =
      (Inr (all_ok \<and> (\<forall>i<length services. probe_ok env (http_count s + i) (snd (services ! i)) 5)),
       s\<lparr>trace := trace s @ evs\<rparr>)
     \<and> filter is_http evs = map (\<lambda>service. HttpGet (snd service) [] 5) services
     \<and> filter is_popen evs = [] \<and> filter is_run evs = []"
proof (induction services arbitrary: s all_ok)
  case Nil
  show ?case by (intro exI [of _ "[]"]) (simp add: py_return_def)
next
  case (Cons service rest)
  obtain name url where service: "service = (name, url)" by (cases service)
  let ?ok = "probe_ok env (http_count s) url 5"
  let ?log = "if ?ok then Log ''SUCCESS'' (check_mark @ '' '' @ name @ '' is accessible at '' @ url)
              else Log ''ERROR'' (cross_mark @ '' '' @ name @ '' is NOT accessible at '' @ url)"
  let ?s2 = "s\<lparr>trace := trace s @ [HttpGet url [] 5, ?log]\<rparr>"
  have step: "verify_loop env (service # rest) all_ok s = verify_loop env rest (all_ok \<and> ?ok) ?s2"
    using utf8 by (simp add: service check_url_accessible_eq monad_defs)
  from Cons.IH [of "all_ok \<and> ?ok" ?s2] obtain evs where
    run: "verify_loop env rest (all_ok \<and> ?ok) ?s2 =
      (Inr ((all_ok \<and> ?ok) \<and> (\<forall>i<length rest. probe_ok env (http_count ?s2 + i) (snd (rest ! i)) 5)),
       ?s2\<lparr>trace := trace ?s2 @ evs\<rparr>)"
    and gets: "filter is_http evs = map (\<lambda>service. HttpGet (snd service) [] 5) rest"
      "filter is_popen evs = []" "filter is_run evs = []"
    by blast
  have all: "(\<forall>i<length (service # rest). probe_ok env (http_count s + i) (snd ((service # rest) ! i)) 5)
     \<longleftrightarrow> ?ok \<and> (\<forall>i<length rest. probe_ok env (http_count ?s2 + i) (snd (rest ! i)) 5)"
    by (auto simp add: service All_less_Suc2)
  show ?case
    unfolding step run all
    by (intro exI [of _ "[HttpGet url [] 5, ?log] @ evs"]) (auto simp add: gets service)
qed

text \<open>On a stdout that has the two marks, the pass probes all three endpoints.\<close>

lemma verify_services_eq:
  assumes utf8: "stdout_unicode env"
  shows "\<exists>evs. verify_services env s =
      (Inr (probe_ok env (http_count s) (exporter_url s) 5
            \<and> probe_ok env (http_count s + 1) (prometheus_url s) 5
            \<and> probe_ok env (http_count s + 2) (alertmanager_url s) 5),
       s\<lparr>trace := trace s @ evs\<rparr>)
     \<and> filter is_http evs =
         [HttpGet (exporter_url s) [] 5, HttpGet (prometheus_url s) [] 5,
          HttpGet (alertmanager_url s) [] 5]
     \<and> filter is_popen evs = [] \<and> filter is_run evs = []"
proof -
  let ?s1 = "s\<lparr>trace := trace s @ [Log ''INFO'' ''Verifying services...'']\<rparr>"
  let ?services = "[(''Windows Exporter'', exporter_url s), (''Prometheus'', prometheus_url s),
                    (''Alertmanager'', alertmanager_url s)]"
  have unfold: "verify_services env s = verify_loop env ?services True ?s1"
    by (simp add: verify_services_def monad_defs del: verify_loop.simps)
  from verify_loop_eq [OF utf8, of ?services True ?s1] obtain evs where
    run: "verify_loop env ?services True ?s1 =
      (Inr (True \<and> (\<forall>i<length ?services. probe_ok env (http_count ?s1 + i) (snd (?services ! i)) 5)),
       ?s1\<lparr>trace := trace ?s1 @ evs\<rparr>)"
    and gets: "filter is_http evs = map (\<lambda>service. HttpGet (snd service) [] 5) ?services"
      "filter is_popen evs = []" "filter is_run evs = []"
    by blast
  have all: "(\<forall>i<length ?services. probe_ok env (http_count ?s1 + i) (snd (?services ! i)) 5)
      \<longleftrightarrow> probe_ok env (http_count s) (exporter_url s) 5
            \<and> probe_ok env (http_count s + 1) (prometheus_url s) 5
            \<and> probe_ok env (http_count s + 2) (alertmanager_url s) 5"
    by (simp add: All_less_Suc2 numeral_3_eq_3)
  show ?thesis
    unfolding unfold run all
    by (intro exI [of _ "Log ''INFO'' ''Verifying services...'' # evs"]) (simp add: gets)
qed

text \<open>
  On a stdout that lacks them, the first result line cannot be printed: the pass raises
  right after its first probe.
\<close>

lemma verify_services_raises:
  assumes legacy: "\<not> stdout_unicode env"
  shows "verify_services env s =
     (Inl (Exn ''UnicodeEncodeError'' ''codec cannot encode character''),
      s\<lparr>trace := trace s @
         [Log ''INFO'' ''Verifying services...'', HttpGet (exporter_url s) [] 5,
          if probe_ok env (http_count s) (exporter_url s) 5
          then Log ''SUCCESS'' (check_mark @ '' Windows Exporter is accessible at '' @ exporter_url s)
          else Log ''ERROR'' (cross_mark @ '' Windows Exporter is NOT accessible at '' @ exporter_url s)]\<rparr>)"
  using legacy by (simp add: verify_services_def check_url_accessible_eq monad_defs)

lemma verify_services_frame:
  "\<exists>r evs. verify_services env s = (r, s\<lparr>trace := trace s @ evs\<rparr>)
     \<and> filter is_popen evs = [] \<and> filter is_run evs = []"
proof (cases "stdout_unicode env")
  case True
  from verify_services_eq [OF True, of s] show ?thesis by blast
next
  case False
  show ?thesis
    unfolding verify_services_raises [OF False]
    by (intro exI [of _ "Inl (Exn ''UnicodeEncodeError'' ''codec cannot encode character'')"]
          exI [of _ "[Log ''INFO'' ''Verifying services...'', HttpGet (exporter_url s) [] 5,
          if probe_ok env (http_count s) (exporter_url s) 5
          then Log ''SUCCESS'' (check_mark @ '' Windows Exporter is accessible at '' @ exporter_url s)
          else Log ''ERROR'' (cross_mark @ '' Windows Exporter is NOT accessible at '' @ exporter_url s)]"])
       simp
qed

text \<open>
  C4. The claim is that \<open>verify_services\<close> probes the exporter's metrics URL, the
  Prometheus root and the Alertmanager root, all three whatever the earlier probes gave,
  and returns \<open>True\<close> exactly when all three succeed. The code does so when stdout can
  encode the marks of its result lines (\<open>verify_services_eq\<close>). It does not in
  \<open>legacy_console\<close>, where all three endpoints answer 200 and stdout is cp1252: the
  success line of the first endpoint raises \<open>UnicodeEncodeError\<close> out of
  \<open>log_message\<close>, the Prometheus and Alertmanager roots are not probed, and no result
  is returned.
\<close>

theorem verify_services_legacy_console:
  "probe_ok legacy_console 0 ''http://localhost:9182/metrics'' 5
   \<and> probe_ok legacy_console 1 ''http://localhost:9090'' 5
   \<and> probe_ok legacy_console 2 ''http://localhost:9093'' 5
   \<and> verify_services legacy_console (init legacy_console) =
       (Inl (Exn ''UnicodeEncodeError'' ''codec cannot encode character''),
        (init legacy_console)\<lparr>trace :=
           [Log ''INFO'' ''Verifying services...'',
            HttpGet ''http://localhost:9182/metrics'' [] 5,
            Log ''SUCCESS''
              (check_mark @ '' Windows Exporter is accessible at http://localhost:9182/metrics'')]\<rparr>)"
proof -
  let ?s = "init legacy_console"
  have init: "exporter_url ?s = ''http://localhost:9182/metrics''" "trace ?s = []"
    by (simp_all add: init_def)
  have legacy: "\<not> stdout_unicode legacy_console"
    by (simp add: legacy_console_def)
  have ok: "\<And>n url. probe_ok legacy_console n url 5"
    by (simp add: probe_ok_def legacy_console_def all_up_def env0_def plain_200_def)
  have "verify_services legacy_console ?s =
       (Inl (Exn ''UnicodeEncodeError'' ''codec cannot encode character''),
        ?s\<lparr>trace :=
           [Log ''INFO'' ''Verifying services...'',
            HttpGet ''http://localhost:9182/metrics'' [] 5,
            Log ''SUCCESS''
              (check_mark @ '' Windows Exporter is accessible at http://localhost:9182/metrics'')]\<rparr>)"
    unfolding verify_services_raises [OF legacy] init by (simp add: ok)
  with ok show ?thesis by blast
qed

subsection \<open>The start-up pipeline\<close>

lemma start_windows_exporter_frame:
  "\<exists>b evs. start_windows_exporter env s = (Inr b, s\<lparr>trace := trace s @ evs\<rparr>)
     \<and> filter is_popen evs = []"
proof (cases "service_running env (run_count s) (windows_exporter_service s)")
  case True
  show ?thesis
    unfolding start_windows_exporter_running [OF True]
    by (intro exI [of _ True] exI [of _ "[Log ''INFO'' ''Checking Windows Exporter service...'',
         Run [''sc'', ''query'', windows_exporter_service s],
         Log ''SUCCESS'' ''Windows Exporter is already running'']"]) simp
next
  case False
  from start_windows_exporter_stopped [OF False] show ?thesis by blast
qed

text \<open>
  C2. When the exporter stage has succeeded and \<open>start_alertmanager\<close> returns \<open>False\<close>,
  \<open>start_all_services\<close> returns \<open>False\<close> in the very state in which
  \<open>start_alertmanager\<close> returned: \<open>start_prometheus\<close> is not run, the Prometheus handle
  is as it was, any process launched during the run is the Alertmanager executable, and
  the last thing the run did is the error report of the Alertmanager stage.
\<close>

theorem start_all_services_fail_fast:
  assumes exporter: "start_windows_exporter env
            (s\<lparr>trace := trace s @ [Log ''INFO'' ''Starting monitoring system...'']\<rparr>) = (Inr True, s1)"
    and router: "start_alertmanager env s1 = (Inr False, s2)"
  shows "start_all_services env s = (Inr False, s2)
     \<and> prometheus_process s2 = prometheus_process s
     \<and> (\<exists>evs msg. trace s2 = trace s @ evs
           \<and> (\<forall>cmd cwd. Popen cmd cwd \<in> set evs \<longrightarrow> hd cmd = alertmanager_path s)
           \<and> last evs = Log ''ERROR'' msg)"
proof -
  let ?s0 = "s\<lparr>trace := trace s @ [Log ''INFO'' ''Starting monitoring system...'']\<rparr>"
  have result: "start_all_services env s = (Inr False, s2)"
    using exporter router by (simp add: start_all_services_def monad_defs)
  from start_windows_exporter_frame [of env ?s0] exporter obtain evs1 where
    s1: "s1 = ?s0\<lparr>trace := trace ?s0 @ evs1\<rparr>" and quiet1: "filter is_popen evs1 = []"
    by auto
  from start_alertmanager_frame [of env s1] router obtain evs2 ap msg where
    s2: "s2 = s1\<lparr>alertmanager_process := ap, trace := trace s1 @ evs2\<rparr>"
    and popen2: "\<forall>cmd cwd. Popen cmd cwd \<in> set evs2 \<longrightarrow> hd cmd = alertmanager_path s1"
    and last2: "evs2 \<noteq> []" "last evs2 = Log ''ERROR'' msg"
    by auto
  have nopopen1: "\<And>cmd cwd. Popen cmd cwd \<notin> set evs1"
  proof
    fix cmd cwd assume "Popen cmd cwd \<in> set evs1"
    then have "Popen cmd cwd \<in> set (filter is_popen evs1)" by simp
    with quiet1 show False by simp
  qed
  let ?evs = "Log ''INFO'' ''Starting monitoring system...'' # evs1 @ evs2"
  have "trace s2 = trace s @ ?evs" by (simp add: s1 s2)
  moreover have "\<forall>cmd cwd. Popen cmd cwd \<in> set ?evs \<longrightarrow> hd cmd = alertmanager_path s"
    using popen2 nopopen1 by (auto simp add: s1)
  moreover have "last ?evs = Log ''ERROR'' msg" using last2 by simp
  moreover have "prometheus_process s2 = prometheus_process s" by (simp add: s1 s2)
  ultimately show ?thesis using result by blast
qed

theorem start_all_services_fail_fast_witness:
  "fst (start_all_services router_missing (init router_missing)) = Inr False
   \<and> prometheus_process (snd (start_all_services router_missing (init router_missing))) = None
   \<and> filter is_popen (trace (snd (start_all_services router_missing (init router_missing)))) = []"
proof -
  let ?s = "init router_missing"
  let ?s0 = "?s\<lparr>trace := trace ?s @ [Log ''INFO'' ''Starting monitoring system...'']\<rparr>"
  let ?s1 = "?s0\<lparr>trace := trace ?s0 @
        [Log ''INFO'' ''Checking Windows Exporter service...'',
         Run [''sc'', ''query'', windows_exporter_service ?s0],
         Log ''SUCCESS'' ''Windows Exporter is already running'']\<rparr>"
  let ?s2 = "snd (start_alertmanager router_missing ?s1)"
  have running: "service_running router_missing (run_count ?s0) (windows_exporter_service ?s0)"
    by (simp add: service_running_def router_missing_def env0_def)
  have a: "start_windows_exporter router_missing ?s0 = (Inr True, ?s1)"
    by (rule start_windows_exporter_running [OF running])
  have "fst (start_alertmanager router_missing ?s1) = Inr False"
    by (simp add: start_alertmanager_def check_url_accessible_eq probe_ok_def monad_defs
        router_missing_def env0_def refused_def)
  then have b: "start_alertmanager router_missing ?s1 = (Inr False, ?s2)"
    by (simp add: prod_eq_iff)
  have s2: "?s2 = ?s1\<lparr>trace := trace ?s1 @ [Log ''INFO'' ''Checking Alertmanager...'',
      HttpGet (alertmanager_url ?s1) [] 5,
      Log ''ERROR'' (''Alertmanager not found at: '' @ alertmanager_path ?s1)]\<rparr>"
    by (simp add: start_alertmanager_def check_url_accessible_eq probe_ok_def monad_defs
        router_missing_def env0_def refused_def)
  from start_all_services_fail_fast [OF a b] show ?thesis
    unfolding s2 by (simp add: init_def)
qed







subsection \<open>The exporter stage\<close>

text \<open>
  C6, as the code has it. When the first \<open>sc query\<close> does not report \<open>RUNNING\<close>, the
  exporter stage issues \<open>sc start\<close> and its result is decided by the output of that one
  command: \<open>True\<close>, after one sleep of 3 seconds, exactly when the output contains
  \<open>START_PENDING\<close> or \<open>RUNNING\<close>, and \<open>False\<close> otherwise (also when the command
  raises). The service manager is not queried again and nothing is retried: the commands
  of the stage are the one query and the one start.
\<close>

theorem start_windows_exporter_trusts_start:
  "\<not> service_running env (run_count s) (windows_exporter_service s) \<Longrightarrow>
   \<exists>evs. start_windows_exporter env s =
      (Inr (start_accepted env (run_count s + 1) (windows_exporter_service s)),
       s\<lparr>trace := trace s @ evs\<rparr>)
     \<and> filter is_run evs = [Run [''sc'', ''query'', windows_exporter_service s],
                             Run [''sc'', ''start'', windows_exporter_service s]]
     \<and> filter is_sleep evs =
         (if start_accepted env (run_count s + 1) (windows_exporter_service s) then [Sleep 3] else [])"
  using start_windows_exporter_stopped [of env s] by blast

theorem start_windows_exporter_trusts_start_witness:
  "\<exists>evs. start_windows_exporter start_denied (init start_denied) =
      (Inr False, (init start_denied)\<lparr>trace := evs\<rparr>)
     \<and> filter is_run evs = [Run [''sc'', ''query'', ''windows_exporter''],
                             Run [''sc'', ''start'', ''windows_exporter'']]
     \<and> filter is_sleep evs = []"
proof -
  let ?s = "init start_denied"
  have init: "windows_exporter_service ?s = ''windows_exporter''" "trace ?s = []"
    by (simp_all add: init_def)
  have stopped: "\<not> service_running start_denied (run_count ?s) (windows_exporter_service ?s)"
    unfolding init by (simp add: service_running_def start_denied_def env0_def)
  have denied: "\<not> start_accepted start_denied (run_count ?s + 1) (windows_exporter_service ?s)"
    unfolding init by (simp add: start_accepted_def start_denied_def env0_def)
  from start_windows_exporter_trusts_start [OF stopped] denied show ?thesis
    unfolding init by auto
qed

text \<open>
  The claim as the specification words it fails. In \<open>env0\<close> the only query of the
  service manager comes before the start command and reports the service stopped; the
  start command answers \<open>START_PENDING\<close>; the stage returns \<open>True\<close> with no query after
  the start.
\<close>

theorem start_windows_exporter_requery_counterexample:
  "\<not> service_running env0 0 ''windows_exporter''
   \<and> fst (start_windows_exporter env0 (init env0)) = Inr True
   \<and> filter is_run (trace (snd (start_windows_exporter env0 (init env0))))
       = [Run [''sc'', ''query'', ''windows_exporter''], Run [''sc'', ''start'', ''windows_exporter'']]"
proof -
  let ?s = "init env0"
  have init: "windows_exporter_service ?s = ''windows_exporter''" "trace ?s = []"
    by (simp_all add: init_def)
  have stopped: "\<not> service_running env0 0 ''windows_exporter''"
    by (simp add: service_running_def env0_def)
  then have stopped': "\<not> service_running env0 (run_count ?s) (windows_exporter_service ?s)"
    unfolding init by simp
  have accepted: "start_accepted env0 (run_count ?s + 1) (windows_exporter_service ?s)"
    unfolding init by (simp add: start_accepted_def env0_def)
  from start_windows_exporter_stopped [OF stopped'] accepted stopped show ?thesis
    unfolding init by auto
qed

subsection \<open>Telemetry\<close>

lemma entry_lines_quiet [simp]:
  "filter is_http (entry_lines name r) = []"
  "filter is_run (entry_lines name r) = []"
  "filter is_popen (entry_lines name r) = []"
  by (simp_all add: entry_lines_def split: sum.splits option.splits)

lemma entry_events_http [simp]:
  "filter is_http (entry_events env url n entry) =
     [HttpGet (url @ ''/api/v1/query'') [(''query'', snd entry)] 5]"
  by (simp add: entry_events_def)

lemma try_fetch_metric_eq:
  "py_try (fetch_metric env url name query)
      (\<lambda>e. print_line env (''  '' @ name @ '': Unable to fetch'')) s =
     (Inr (), s\<lparr>trace := trace s @ entry_events env url (http_count s) (name, query)\<rparr>)"
  by (simp add: fetch_metric_def requests_get_def response_json_def entry_events_def
      entry_lines_def entry_result_def exn_bind_def monad_defs Let_def
      split: http_outcome.splits sum.splits option.splits)

lemma metrics_loop_step:
  "metrics_loop env url ((name, query) # rest) s =
     metrics_loop env url rest
       (s\<lparr>trace := trace s @ entry_events env url (http_count s) (name, query)\<rparr>)"
  using try_fetch_metric_eq [of env url name query s]
  by (simp add: py_seq_def py_bind_def)

lemma get_system_metrics_eq:
  "get_system_metrics env s =
     (Inr (), s\<lparr>trace := trace s @
        [Log ''INFO'' ''Fetching system metrics...'', Print (newline @ rule60),
         Print ''  CURRENT SYSTEM METRICS'', Print rule60]
        @ entry_events env (prometheus_url s) (http_count s) (queries ! 0)
        @ entry_events env (prometheus_url s) (http_count s + 1) (queries ! 1)
        @ entry_events env (prometheus_url s) (http_count s + 2) (queries ! 2)
        @ [Print (rule60 @ newline)]\<rparr>)"
proof -
  obtain e0 e1 e2 where q: "queries = [e0, e1, e2]" by (simp add: queries_def)
  obtain n0 q0 n1 q1 n2 q2 where e: "e0 = (n0, q0)" "e1 = (n1, q1)" "e2 = (n2, q2)"
    by (cases e0, cases e1, cases e2) blast
  let ?s1 = "s\<lparr>trace := trace s @
        [Log ''INFO'' ''Fetching system metrics...'', Print (newline @ rule60),
         Print ''  CURRENT SYSTEM METRICS'', Print rule60]\<rparr>"
  have loop: "metrics_loop env (prometheus_url s) [e0, e1, e2] ?s1 =
      (Inr (), ?s1\<lparr>trace := trace ?s1
          @ entry_events env (prometheus_url s) (http_count s) e0
          @ entry_events env (prometheus_url s) (http_count s + 1) e1
          @ entry_events env (prometheus_url s) (http_count s + 2) e2\<rparr>)"
    unfolding e metrics_loop_step by (simp add: py_return_def)
  have "get_system_metrics env s =
      py_seq (metrics_loop env (prometheus_url s) queries) (print_line env (rule60 @ newline)) ?s1"
    by (simp add: get_system_metrics_def monad_defs del: metrics_loop.simps)
  then show ?thesis
    unfolding q by (simp add: loop monad_defs)
qed

lemma alert_text_plain: "alert_text env alert = Inr line \<Longrightarrow> \<not> has_glyph line"
  by (auto simp add: alert_text_def exn_bind_def split: sum.splits)

lemma alert_lines_output:
  "(\<forall>e\<in>set (alert_lines env items). is_output e) \<and> filter is_http (alert_lines env items) = []"
  by (induction items) (auto simp add: alert_error_def split: sum.splits)

lemma alert_events_output:
  "(\<forall>e\<in>set (alert_events env reply). is_output e) \<and> filter is_http (alert_events env reply) = []"
  using alert_lines_output [of env]
  by (auto simp add: alert_events_def alert_error_def split: http_outcome.splits sum.splits)

lemma alert_lines_last:
  "alert_lines env items \<noteq> []"
  by (cases items) (auto split: sum.splits)

lemma alerts_loop_eq:
  "\<exists>r. alerts_loop env items s =
        (r, s\<lparr>trace := trace s @ butlast (alert_lines env items)\<rparr>)
     \<and> last (alert_lines env items) =
         (case r of Inl e \<Rightarrow> alert_error e | Inr u \<Rightarrow> Print rule60)"
proof (induction items arbitrary: s)
  case Nil
  show ?case by (intro exI [of _ "Inr ()"]) (simp add: py_return_def)
next
  case (Cons alert rest)
  show ?case
  proof (cases "alert_text env alert")
    case (Inl e)
    then show ?thesis
      by (intro exI [of _ "Inl e"]) (simp add: monad_defs)
  next
    case (Inr line)
    let ?s2 = "s\<lparr>trace := trace s @ [Print line]\<rparr>"
    from Cons.IH [of ?s2] obtain r where
      run: "alerts_loop env rest ?s2 = (r, ?s2\<lparr>trace := trace ?s2 @ butlast (alert_lines env rest)\<rparr>)"
      and fin: "last (alert_lines env rest) = (case r of Inl e \<Rightarrow> alert_error e | Inr u \<Rightarrow> Print rule60)"
      by blast
    have "alerts_loop env (alert # rest) s = alerts_loop env rest ?s2"
      using Inr alert_text_plain [OF Inr] by (simp add: monad_defs)
    with run fin Inr alert_lines_last [of env rest] show ?thesis
      by (intro exI [of _ r]) simp
  qed
qed

lemma check_alerts_report:
  "check_alerts env s =
     (Inr (), s\<lparr>trace := trace s @ HttpGet (prometheus_url s @ ''/api/v1/alerts'') [] 5
        # alert_events env
            (http_reply env (http_count s) (prometheus_url s @ ''/api/v1/alerts'') [] 5)\<rparr>)"
proof -
  let ?url = "prometheus_url s @ ''/api/v1/alerts''"
  let ?head = "[Print (newline @ rule60), Print ''  ALERT STATUS'', Print rule60]"
  note defs = check_alerts_def requests_get_def response_json_def alert_events_def alert_error_def
    exn_bind_def monad_defs Let_def
  show ?thesis
  proof (cases "http_reply env (http_count s) ?url [] 5")
    case (RequestRaised e)
    then show ?thesis by (simp add: defs)
  next
    case (Response code body)
    show ?thesis
    proof (cases "code = 200")
      case False
      with Response show ?thesis by (simp add: defs)
    next
      case True
      show ?thesis
      proof (cases body)
        case (Inl e)
        with Response True show ?thesis by (simp add: defs)
      next
        case (Inr payload)
        show ?thesis
        proof (cases "getitem_str payload ''data''")
          case nodata: (Inl e)
          with Response True Inr show ?thesis by (simp add: defs)
        next
          case data: (Inr d)
          show ?thesis
          proof (cases "getitem_str d ''alerts''")
            case noalerts: (Inl e)
            with Response True Inr data show ?thesis by (simp add: defs)
          next
            case alerts: (Inr alerts)
            show ?thesis
            proof (cases "truthy alerts")
              case False
              with Response True Inr data alerts show ?thesis by (simp add: defs)
            next
              case some: True
              show ?thesis
              proof (cases "py_iter alerts")
                case noiter: (Inl e)
                with Response True Inr data alerts some show ?thesis by (simp add: defs)
              next
                case iter: (Inr items)
                let ?s2 = "s\<lparr>trace := trace s @ HttpGet ?url [] 5 # ?head\<rparr>"
                from alerts_loop_eq [of env items ?s2] obtain r where
                  run: "alerts_loop env items ?s2 =
                    (r, ?s2\<lparr>trace := trace ?s2 @ butlast (alert_lines env items)\<rparr>)"
                  and fin: "last (alert_lines env items) =
                    (case r of Inl e \<Rightarrow> alert_error e | Inr u \<Rightarrow> Print rule60)"
                  by blast
                have whole: "butlast (alert_lines env items) @ [last (alert_lines env items)]
                    = alert_lines env items"
                  using alert_lines_last [of env items] by simp
                show ?thesis
                proof (cases r)
                  case raised: (Inl e)
                  with fin whole have "butlast (alert_lines env items) @ [alert_error e]
                      = alert_lines env items" by simp
                  with Response True Inr data alerts some iter run raised show ?thesis
                    by (simp add: defs del: alerts_loop.simps alert_lines.simps)
                next
                  case finished: (Inr u)
                  with fin whole have "butlast (alert_lines env items) @ [Print rule60]
                      = alert_lines env items" by simp
                  with Response True Inr data alerts some iter run finished show ?thesis
                    by (simp add: defs del: alerts_loop.simps alert_lines.simps)
                qed
              qed
            qed
          qed
        qed
      qed
    qed
  qed
qed

lemma check_alerts_eq:
  "\<exists>evs. check_alerts env s =
      (Inr (), s\<lparr>trace := trace s @ HttpGet (prometheus_url s @ ''/api/v1/alerts'') [] 5 # evs\<rparr>)
     \<and> (\<forall>e\<in>set evs. is_output e) \<and> filter is_http evs = []"
  using check_alerts_report [of env s] alert_events_output [of env] by blast






text \<open>
  C10. In the loop of \<open>get_system_metrics\<close>, an iteration whose request is answered and
  whose body decodes to a payload with a \<open>status\<close> other than \<open>success\<close>, or with status
  \<open>success\<close> and an empty result list, adds the request to the trace and nothing else:
  no value line and no \<open>Unable to fetch\<close> line is printed for that entry, and the loop goes
  on with the remaining queries.
\<close>

theorem metric_without_value_is_omitted:
  "http_reply env (http_count s) (url @ ''/api/v1/query'') [(''query'', query)] 5
     = Response code (Inr payload) \<Longrightarrow>
   getitem_str payload ''status'' = Inr status \<Longrightarrow>
   status \<noteq> PStr ''success''
     \<or> (\<exists>d. getitem_str payload ''data'' = Inr d \<and> getitem_str d ''result'' = Inr (PList [])) \<Longrightarrow>
   metrics_loop env url ((name, query) # rest) s =
     metrics_loop env url rest
       (s\<lparr>trace := trace s @ [HttpGet (url @ ''/api/v1/query'') [(''query'', query)] 5]\<rparr>)"
proof -
  assume reply: "http_reply env (http_count s) (url @ ''/api/v1/query'') [(''query'', query)] 5
     = Response code (Inr payload)"
    and status: "getitem_str payload ''status'' = Inr status"
    and novalue: "status \<noteq> PStr ''success''
     \<or> (\<exists>d. getitem_str payload ''data'' = Inr d \<and> getitem_str d ''result'' = Inr (PList []))"
  have "metric_text env payload = Inr None"
    using status novalue by (auto simp add: metric_text_def exn_bind_def)
  then have "entry_events env url (http_count s) (name, query) =
      [HttpGet (url @ ''/api/v1/query'') [(''query'', query)] 5]"
    using reply by (simp add: entry_events_def entry_lines_def entry_result_def exn_bind_def)
  then show ?thesis
    unfolding metrics_loop_step by simp
qed

theorem metric_without_value_is_omitted_witness:
  "metrics_loop telemetry_mixed ''http://localhost:9090'' [(''Memory Usage'', ''up'')]
      ((init env0)\<lparr>trace := [HttpGet ''http://localhost:9090'' [] 5]\<rparr>)
     = (Inr (), (init env0)\<lparr>trace :=
          [HttpGet ''http://localhost:9090'' [] 5,
           HttpGet ''http://localhost:9090/api/v1/query'' [(''query'', ''up'')] 5]\<rparr>)
   \<and> metrics_loop telemetry_empty ''http://localhost:9090'' [(''Disk Usage'', ''up'')] (init env0)
     = (Inr (), (init env0)\<lparr>trace :=
          [HttpGet ''http://localhost:9090/api/v1/query'' [(''query'', ''up'')] 5]\<rparr>)"
proof -
  let ?s = "init env0"
  let ?s1 = "?s\<lparr>trace := [HttpGet ''http://localhost:9090'' [] 5]\<rparr>"
  have count: "http_count ?s1 = 1" "http_count ?s = 0" "trace ?s = []"
    by (simp_all add: http_count_def init_def)
  have r1: "http_reply telemetry_mixed (http_count ?s1) (''http://localhost:9090'' @ ''/api/v1/query'')
      [(''query'', ''up'')] 5 = Response 422 (Inr error_payload)"
    unfolding count by (simp add: telemetry_mixed_def env0_def)
  have st1: "getitem_str error_payload ''status'' = Inr (PStr ''error'')"
    by (simp add: error_payload_def)
  have c1: "PStr ''error'' \<noteq> PStr ''success''
     \<or> (\<exists>d. getitem_str error_payload ''data'' = Inr d \<and> getitem_str d ''result'' = Inr (PList []))"
    by simp
  have r2: "http_reply telemetry_empty (http_count ?s) (''http://localhost:9090'' @ ''/api/v1/query'')
      [(''query'', ''up'')] 5 = Response 200 (Inr empty_payload)"
    by (simp add: telemetry_empty_def env0_def)
  have st2: "getitem_str empty_payload ''status'' = Inr (PStr ''success'')"
    by (simp add: empty_payload_def)
  have c2: "PStr ''success'' \<noteq> PStr ''success''
     \<or> (\<exists>d. getitem_str empty_payload ''data'' = Inr d \<and> getitem_str d ''result'' = Inr (PList []))"
    by (simp add: empty_payload_def)
  from metric_without_value_is_omitted [OF r1 st1 c1, of "''Memory Usage''" "[]"]
    metric_without_value_is_omitted [OF r2 st2 c2, of "''Disk Usage''" "[]"]
  show ?thesis
    by (simp add: py_return_def count)
qed

text \<open>
  C7, as the code has it. The one request of \<open>check_alerts\<close> goes to the
  \<open>/api/v1/alerts\<close> endpoint under \<open>prometheus_url\<close>, which the constructor sets to
  \<open>http://localhost:9090\<close>; the Alertmanager URL is \<open>http://localhost:9093\<close>.
\<close>

theorem check_alerts_queries_prometheus:
  "(\<exists>evs. check_alerts env s = (Inr (), s\<lparr>trace := trace s @ evs\<rparr>)
      \<and> filter is_http evs = [HttpGet (prometheus_url s @ ''/api/v1/alerts'') [] 5])
   \<and> prometheus_url (init env) = ''http://localhost:9090''
   \<and> alertmanager_url (init env) = ''http://localhost:9093''"
proof -
  from check_alerts_eq [of env s] obtain evs where
    "check_alerts env s =
      (Inr (), s\<lparr>trace := trace s @ HttpGet (prometheus_url s @ ''/api/v1/alerts'') [] 5 # evs\<rparr>)"
    and "filter is_http evs = []"
    by blast
  then have "\<exists>evs. check_alerts env s = (Inr (), s\<lparr>trace := trace s @ evs\<rparr>)
      \<and> filter is_http evs = [HttpGet (prometheus_url s @ ''/api/v1/alerts'') [] 5]"
    by (intro exI [of _ "HttpGet (prometheus_url s @ ''/api/v1/alerts'') [] 5 # evs"]) simp
  then show ?thesis by (simp add: init_def)
qed

theorem check_alerts_queries_prometheus_witness:
  "filter is_http (trace (snd (check_alerts telemetry_mixed (init telemetry_mixed))))
     = [HttpGet ''http://localhost:9090/api/v1/alerts'' [] 5]"
proof -
  have init: "prometheus_url (init telemetry_mixed) = ''http://localhost:9090''"
    "trace (init telemetry_mixed) = []"
    by (simp_all add: init_def)
  from check_alerts_queries_prometheus [of telemetry_mixed "init telemetry_mixed"]
  show ?thesis unfolding init by auto
qed

text \<open>
  The claim as the specification words it fails: run from the constructor's state,
  \<open>check_alerts\<close> sends its request to port 9090 and sends nothing to the Alertmanager
  URL.
\<close>

theorem check_alerts_router_endpoint_counterexample:
  "filter is_http (trace (snd (check_alerts env0 (init env0))))
     = [HttpGet ''http://localhost:9090/api/v1/alerts'' [] 5]
   \<and> HttpGet (alertmanager_url (init env0) @ ''/api/v1/alerts'') [] 5
       \<notin> set (trace (snd (check_alerts env0 (init env0))))"
proof -
  have init: "prometheus_url (init env0) = ''http://localhost:9090''"
    "alertmanager_url (init env0) = ''http://localhost:9093''"
    "trace (init env0) = []"
    by (simp_all add: init_def)
  from check_alerts_eq [of env0 "init env0"] obtain evs where
    run: "check_alerts env0 (init env0) =
      (Inr (), (init env0)\<lparr>trace := trace (init env0)
          @ HttpGet (prometheus_url (init env0) @ ''/api/v1/alerts'') [] 5 # evs\<rparr>)"
    and quiet: "filter is_http evs = []"
    by blast
  have "HttpGet ''http://localhost:9093/api/v1/alerts'' [] 5 \<notin> set evs"
  proof
    assume "HttpGet ''http://localhost:9093/api/v1/alerts'' [] 5 \<in> set evs"
    then have "HttpGet ''http://localhost:9093/api/v1/alerts'' [] 5 \<in> set (filter is_http evs)"
      by simp
    with quiet show False by simp
  qed
  with quiet show ?thesis
    unfolding run init by simp
qed

subsection \<open>The launching stages\<close>

lemma count_handle_update [simp]:
  "http_count (s\<lparr>alertmanager_process := a\<rparr>) = http_count s"
  "http_count (s\<lparr>prometheus_process := p\<rparr>) = http_count s"
  by (simp_all add: http_count_def)

lemma first_ready_atD:
  "first_ready_at env n url k \<Longrightarrow>
   \<exists>k'. k = Suc k' \<and> (\<forall>j<k'. \<not> probe_ok env (n + j) url 5) \<and> probe_ok env (n + k') url 5"
  by (cases k) (auto simp add: first_ready_at_def list_all_iff)

lemma never_readyD:
  "never_ready env n url m \<Longrightarrow> \<forall>j<m. \<not> probe_ok env (n + j) url 5"
  by (auto simp add: never_ready_def list_all_iff)

text \<open>Once the process is launched, each stage is its poll loop and the two ways out of it.\<close>

lemma start_alertmanager_poll:
  assumes launch: "launches_alertmanager env s h"
  shows "start_alertmanager env s =
     py_try
       (py_bind (wait_ready env ''Alertmanager'' (alertmanager_url s) 2 10 [0..<10]) (\<lambda>ready.
          if ready then py_return True
          else
            py_seq (log_message env ''Alertmanager failed to start within timeout'' ''ERROR'')
              (py_return False)))
       (\<lambda>e.
          py_seq (log_message env (''Error starting Alertmanager: '' @ str_exn e) ''ERROR'')
            (py_return False))
       (s\<lparr>trace := trace s @
           [Log ''INFO'' ''Checking Alertmanager...'', HttpGet (alertmanager_url s) [] 5,
            Log ''INFO'' ''Starting Alertmanager...'',
            Popen (alertmanager_cmd env s) (alertmanager_cwd env s)],
          alertmanager_process := Some h\<rparr>)"
  using launch
  by (simp add: launches_alertmanager_def alertmanager_attempted_def alertmanager_cmd_def
      alertmanager_cwd_def start_alertmanager_def check_url_accessible_eq subprocess_Popen_def
      set_alertmanager_process_def monad_defs Let_def
      del: wait_ready.simps upt_Suc)

lemma start_prometheus_poll:
  assumes launch: "launches_prometheus env s h"
  shows "start_prometheus env s =
     py_try
       (py_bind (wait_ready env ''Prometheus'' (prometheus_url s) 2 15 [0..<15]) (\<lambda>ready.
          if ready then py_return True
          else
            py_seq (log_message env ''Prometheus failed to start within timeout'' ''ERROR'')
              (py_return False)))
       (\<lambda>e.
          py_seq (log_message env (''Error starting Prometheus: '' @ str_exn e) ''ERROR'')
            (py_return False))
       (s\<lparr>trace := trace s @
           [Log ''INFO'' ''Checking Prometheus...'', HttpGet (prometheus_url s) [] 5,
            Log ''INFO'' ''Starting Prometheus...'',
            Popen (prometheus_cmd s) (prometheus_cwd env s)],
          prometheus_process := Some h\<rparr>)"
  using launch
  by (simp add: launches_prometheus_def prometheus_attempted_def prometheus_cmd_def
      prometheus_cwd_def start_prometheus_def check_url_accessible_eq subprocess_Popen_def
      set_prometheus_process_def monad_defs Let_def
      del: wait_ready.simps upt_Suc)

lemma start_alertmanager_ready:
  assumes launch: "launches_alertmanager env s h"
    and k: "k \<le> 10"
    and first: "first_ready_at env (http_count s + 1) (alertmanager_url s) k"
  shows "\<exists>evs. start_alertmanager env s =
       (Inr True, s\<lparr>trace := trace s @ evs, alertmanager_process := Some h\<rparr>)
     \<and> filter is_cycle evs =
         HttpGet (alertmanager_url s) [] 5
           # concat (replicate k [Sleep 2, HttpGet (alertmanager_url s) [] 5])"
proof -
  let ?url = "alertmanager_url s"
  let ?pre = "[Log ''INFO'' ''Checking Alertmanager...'', HttpGet ?url [] 5,
            Log ''INFO'' ''Starting Alertmanager...'',
            Popen (alertmanager_cmd env s) (alertmanager_cwd env s)]"
  let ?s3 = "s\<lparr>trace := trace s @ ?pre, alertmanager_process := Some h\<rparr>"
  from first_ready_atD [OF first] obtain k' where
    k': "k = Suc k'" and before: "\<forall>j<k'. \<not> probe_ok env (http_count s + 1 + j) ?url 5"
    and at: "probe_ok env (http_count s + 1 + k') ?url 5"
    by blast
  have plain: "\<not> has_glyph (''Alertmanager'' @ '' started successfully'')" by simp
  have len: "k' < length [0..<10]" using k k' by simp
  have before3: "\<forall>j<k'. \<not> probe_ok env (http_count ?s3 + j) ?url 5"
    using before by (simp add: http_count_def)
  have at3: "probe_ok env (http_count ?s3 + k') ?url 5"
    using at by (simp add: http_count_def)
  from wait_ready_first_success [OF plain len before3 at3, of 2 10] obtain evs where
    run: "wait_ready env ''Alertmanager'' ?url 2 10 [0..<10] ?s3 =
      (Inr True, ?s3\<lparr>trace := trace ?s3 @ evs\<rparr>)"
    and cyc: "filter is_cycle evs = concat (replicate (Suc k') [Sleep 2, HttpGet ?url [] 5])"
    by blast
  have "start_alertmanager env s =
      (Inr True, s\<lparr>trace := trace s @ ?pre @ evs, alertmanager_process := Some h\<rparr>)"
    unfolding start_alertmanager_poll [OF launch]
    using run by (simp add: monad_defs del: wait_ready.simps upt_Suc)
  with cyc k' show ?thesis
    by (intro exI [of _ "?pre @ evs"]) simp
qed

lemma start_alertmanager_timeout:
  assumes launch: "launches_alertmanager env s h"
    and never: "never_ready env (http_count s + 1) (alertmanager_url s) 10"
  shows "\<exists>evs. start_alertmanager env s =
       (Inr False, s\<lparr>trace := trace s @ evs, alertmanager_process := Some h\<rparr>)
     \<and> filter is_cycle evs =
         HttpGet (alertmanager_url s) [] 5
           # concat (replicate 10 [Sleep 2, HttpGet (alertmanager_url s) [] 5])
     \<and> last evs = Log ''ERROR'' ''Alertmanager failed to start within timeout''"
proof -
  let ?url = "alertmanager_url s"
  let ?pre = "[Log ''INFO'' ''Checking Alertmanager...'', HttpGet ?url [] 5,
            Log ''INFO'' ''Starting Alertmanager...'',
            Popen (alertmanager_cmd env s) (alertmanager_cwd env s)]"
  let ?s3 = "s\<lparr>trace := trace s @ ?pre, alertmanager_process := Some h\<rparr>"
  have never3: "\<forall>j<length [0..<10]. \<not> probe_ok env (http_count ?s3 + j) ?url 5"
    using never_readyD [OF never] by (simp add: http_count_def)
  from wait_ready_exhausted [OF never3, of "''Alertmanager''" 2 10] obtain evs where
    run: "wait_ready env ''Alertmanager'' ?url 2 10 [0..<10] ?s3 =
      (Inr False, ?s3\<lparr>trace := trace ?s3 @ evs\<rparr>)"
    and cyc: "filter is_cycle evs = concat (replicate (length [0..<10]) [Sleep 2, HttpGet ?url [] 5])"
    by blast
  let ?all = "?pre @ evs @ [Log ''ERROR'' ''Alertmanager failed to start within timeout'']"
  have "start_alertmanager env s =
      (Inr False, s\<lparr>trace := trace s @ ?all, alertmanager_process := Some h\<rparr>)"
    unfolding start_alertmanager_poll [OF launch]
    using run by (simp add: monad_defs del: wait_ready.simps upt_Suc)
  with cyc show ?thesis
    by (intro exI [of _ ?all]) (simp del: upt_Suc)
qed

lemma start_prometheus_ready:
  assumes launch: "launches_prometheus env s h"
    and k: "k \<le> 15"
    and first: "first_ready_at env (http_count s + 1) (prometheus_url s) k"
  shows "\<exists>evs. start_prometheus env s =
       (Inr True, s\<lparr>trace := trace s @ evs, prometheus_process := Some h\<rparr>)
     \<and> filter is_cycle evs =
         HttpGet (prometheus_url s) [] 5
           # concat (replicate k [Sleep 2, HttpGet (prometheus_url s) [] 5])"
proof -
  let ?url = "prometheus_url s"
  let ?pre = "[Log ''INFO'' ''Checking Prometheus...'', HttpGet ?url [] 5,
            Log ''INFO'' ''Starting Prometheus...'',
            Popen (prometheus_cmd s) (prometheus_cwd env s)]"
  let ?s3 = "s\<lparr>trace := trace s @ ?pre, prometheus_process := Some h\<rparr>"
  from first_ready_atD [OF first] obtain k' where
    k': "k = Suc k'" and before: "\<forall>j<k'. \<not> probe_ok env (http_count s + 1 + j) ?url 5"
    and at: "probe_ok env (http_count s + 1 + k') ?url 5"
    by blast
  have plain: "\<not> has_glyph (''Prometheus'' @ '' started successfully'')" by simp
  have len: "k' < length [0..<15]" using k k' by simp
  have before3: "\<forall>j<k'. \<not> probe_ok env (http_count ?s3 + j) ?url 5"
    using before by (simp add: http_count_def)
  have at3: "probe_ok env (http_count ?s3 + k') ?url 5"
    using at by (simp add: http_count_def)
  from wait_ready_first_success [OF plain len before3 at3, of 2 15] obtain evs where
    run: "wait_ready env ''Prometheus'' ?url 2 15 [0..<15] ?s3 =
      (Inr True, ?s3\<lparr>trace := trace ?s3 @ evs\<rparr>)"
    and cyc: "filter is_cycle evs = concat (replicate (Suc k') [Sleep 2, HttpGet ?url [] 5])"
    by blast
  have "start_prometheus env s =
      (Inr True, s\<lparr>trace := trace s @ ?pre @ evs, prometheus_process := Some h\<rparr>)"
    unfolding start_prometheus_poll [OF launch]
    using run by (simp add: monad_defs del: wait_ready.simps upt_Suc)
  with cyc k' show ?thesis
    by (intro exI [of _ "?pre @ evs"]) simp
qed

lemma start_prometheus_timeout:
  assumes launch: "launches_prometheus env s h"
    and never: "never_ready env (http_count s + 1) (prometheus_url s) 15"
  shows "\<exists>evs. start_prometheus env s =
       (Inr False, s\<lparr>trace := trace s @ evs, prometheus_process := Some h\<rparr>)
     \<and> filter is_cycle evs =
         HttpGet (prometheus_url s) [] 5
           # concat (replicate 15 [Sleep 2, HttpGet (prometheus_url s) [] 5])
     \<and> last evs = Log ''ERROR'' ''Prometheus failed to start within timeout''"
proof -
  let ?url = "prometheus_url s"
  let ?pre = "[Log ''INFO'' ''Checking Prometheus...'', HttpGet ?url [] 5,
            Log ''INFO'' ''Starting Prometheus...'',
            Popen (prometheus_cmd s) (prometheus_cwd env s)]"
  let ?s3 = "s\<lparr>trace := trace s @ ?pre, prometheus_process := Some h\<rparr>"
  have never3: "\<forall>j<length [0..<15]. \<not> probe_ok env (http_count ?s3 + j) ?url 5"
    using never_readyD [OF never] by (simp add: http_count_def)
  from wait_ready_exhausted [OF never3, of "''Prometheus''" 2 15] obtain evs where
    run: "wait_ready env ''Prometheus'' ?url 2 15 [0..<15] ?s3 =
      (Inr False, ?s3\<lparr>trace := trace ?s3 @ evs\<rparr>)"
    and cyc: "filter is_cycle evs = concat (replicate (length [0..<15]) [Sleep 2, HttpGet ?url [] 5])"
    by blast
  let ?all = "?pre @ evs @ [Log ''ERROR'' ''Prometheus failed to start within timeout'']"
  have "start_prometheus env s =
      (Inr False, s\<lparr>trace := trace s @ ?all, prometheus_process := Some h\<rparr>)"
    unfolding start_prometheus_poll [OF launch]
    using run by (simp add: monad_defs del: wait_ready.simps upt_Suc)
  with cyc show ?thesis
    by (intro exI [of _ ?all]) (simp del: upt_Suc)
qed

text \<open>
  C1. The readiness poll. For every interval and every ceiling \<open>max_retries\<close>, the loop
  entered in state \<open>s\<close> (its probes are the requests numbered \<open>http_count s\<close> and up)
  \<^item> returns \<open>True\<close> after exactly \<open>k\<close> sleep-then-probe cycles when probe
    \<open>k \<le> max_retries\<close> is the first to succeed;
  \<^item> returns \<open>False\<close> after exactly \<open>max_retries\<close> cycles, with no further probe, when
    none of them succeeds.
  \<open>start_alertmanager\<close> and \<open>start_prometheus\<close>, once they have launched their process
  (after the one probe that found the URL down), run this loop with interval 2 and
  ceiling 10, respectively 15, and return its verdict: \<open>True\<close> after exactly \<open>k\<close> cycles,
  or \<open>False\<close> after exactly 10, respectively 15, cycles, followed by the timeout report.
\<close>

theorem readiness_poll_exact_cycles:
  "(\<not> has_glyph (name @ '' started successfully'') \<and> k \<le> max_retries
      \<and> first_ready_at env (http_count s) url k
    \<longrightarrow> (\<exists>evs. wait_ready env name url interval max_retries [0..<max_retries] s
                  = (Inr True, s\<lparr>trace := trace s @ evs\<rparr>)
          \<and> filter is_cycle evs = concat (replicate k [Sleep interval, HttpGet url [] 5])))
   \<and> (never_ready env (http_count s) url max_retries
    \<longrightarrow> (\<exists>evs. wait_ready env name url interval max_retries [0..<max_retries] s
                  = (Inr False, s\<lparr>trace := trace s @ evs\<rparr>)
          \<and> filter is_cycle evs = concat (replicate max_retries [Sleep interval, HttpGet url [] 5])))
   \<and> (launches_alertmanager env s h \<and> k \<le> 10
      \<and> first_ready_at env (http_count s + 1) (alertmanager_url s) k
    \<longrightarrow> (\<exists>evs. start_alertmanager env s =
              (Inr True, s\<lparr>trace := trace s @ evs, alertmanager_process := Some h\<rparr>)
          \<and> filter is_cycle evs =
              HttpGet (alertmanager_url s) [] 5
                # concat (replicate k [Sleep 2, HttpGet (alertmanager_url s) [] 5])))
   \<and> (launches_alertmanager env s h
      \<and> never_ready env (http_count s + 1) (alertmanager_url s) 10
    \<longrightarrow> (\<exists>evs. start_alertmanager env s =
              (Inr False, s\<lparr>trace := trace s @ evs, alertmanager_process := Some h\<rparr>)
          \<and> filter is_cycle evs =
              HttpGet (alertmanager_url s) [] 5
                # concat (replicate 10 [Sleep 2, HttpGet (alertmanager_url s) [] 5])
          \<and> last evs = Log ''ERROR'' ''Alertmanager failed to start within timeout''))
   \<and> (launches_prometheus env s h \<and> k \<le> 15
      \<and> first_ready_at env (http_count s + 1) (prometheus_url s) k
    \<longrightarrow> (\<exists>evs. start_prometheus env s =
              (Inr True, s\<lparr>trace := trace s @ evs, prometheus_process := Some h\<rparr>)
          \<and> filter is_cycle evs =
              HttpGet (prometheus_url s) [] 5
                # concat (replicate k [Sleep 2, HttpGet (prometheus_url s) [] 5])))
   \<and> (launches_prometheus env s h
      \<and> never_ready env (http_count s + 1) (prometheus_url s) 15
    \<longrightarrow> (\<exists>evs. start_prometheus env s =
              (Inr False, s\<lparr>trace := trace s @ evs, prometheus_process := Some h\<rparr>)
          \<and> filter is_cycle evs =
              HttpGet (prometheus_url s) [] 5
                # concat (replicate 15 [Sleep 2, HttpGet (prometheus_url s) [] 5])
          \<and> last evs = Log ''ERROR'' ''Prometheus failed to start within timeout''))"
proof (intro conjI impI)
  assume a: "\<not> has_glyph (name @ '' started successfully'') \<and> k \<le> max_retries
      \<and> first_ready_at env (http_count s) url k"
  then obtain k' where k: "k = Suc k'"
    and before: "\<forall>j<k'. \<not> probe_ok env (http_count s + j) url 5"
    and at: "probe_ok env (http_count s + k') url 5"
    using first_ready_atD [of env "http_count s" url k] by blast
  have plain: "\<not> has_glyph (name @ '' started successfully'')" using a by simp
  have len: "k' < length [0..<max_retries]" using a k by simp
  from wait_ready_first_success [OF plain len before at, of interval max_retries] k
  show "\<exists>evs. wait_ready env name url interval max_retries [0..<max_retries] s
                  = (Inr True, s\<lparr>trace := trace s @ evs\<rparr>)
          \<and> filter is_cycle evs = concat (replicate k [Sleep interval, HttpGet url [] 5])"
    by simp
next
  assume a: "never_ready env (http_count s) url max_retries"
  have never: "\<forall>j<length [0..<max_retries]. \<not> probe_ok env (http_count s + j) url 5"
    using never_readyD [OF a] by simp
  from wait_ready_exhausted [OF never, of name interval max_retries]
  show "\<exists>evs. wait_ready env name url interval max_retries [0..<max_retries] s
                  = (Inr False, s\<lparr>trace := trace s @ evs\<rparr>)
          \<and> filter is_cycle evs = concat (replicate max_retries [Sleep interval, HttpGet url [] 5])"
    by simp
next
  assume "launches_alertmanager env s h \<and> k \<le> 10
      \<and> first_ready_at env (http_count s + 1) (alertmanager_url s) k"
  then show "\<exists>evs. start_alertmanager env s =
              (Inr True, s\<lparr>trace := trace s @ evs, alertmanager_process := Some h\<rparr>)
          \<and> filter is_cycle evs =
              HttpGet (alertmanager_url s) [] 5
                # concat (replicate k [Sleep 2, HttpGet (alertmanager_url s) [] 5])"
    using start_alertmanager_ready [of env s h k] by blast
next
  assume "launches_alertmanager env s h
      \<and> never_ready env (http_count s + 1) (alertmanager_url s) 10"
  then show "\<exists>evs. start_alertmanager env s =
              (Inr False, s\<lparr>trace := trace s @ evs, alertmanager_process := Some h\<rparr>)
          \<and> filter is_cycle evs =
              HttpGet (alertmanager_url s) [] 5
                # concat (replicate 10 [Sleep 2, HttpGet (alertmanager_url s) [] 5])
          \<and> last evs = Log ''ERROR'' ''Alertmanager failed to start within timeout''"
    using start_alertmanager_timeout [of env s h] by blast
next
  assume "launches_prometheus env s h \<and> k \<le> 15
      \<and> first_ready_at env (http_count s + 1) (prometheus_url s) k"
  then show "\<exists>evs. start_prometheus env s =
              (Inr True, s\<lparr>trace := trace s @ evs, prometheus_process := Some h\<rparr>)
          \<and> filter is_cycle evs =
              HttpGet (prometheus_url s) [] 5
                # concat (replicate k [Sleep 2, HttpGet (prometheus_url s) [] 5])"
    using start_prometheus_ready [of env s h k] by blast
next
  assume "launches_prometheus env s h
      \<and> never_ready env (http_count s + 1) (prometheus_url s) 15"
  then show "\<exists>evs. start_prometheus env s =
              (Inr False, s\<lparr>trace := trace s @ evs, prometheus_process := Some h\<rparr>)
          \<and> filter is_cycle evs =
              HttpGet (prometheus_url s) [] 5
                # concat (replicate 15 [Sleep 2, HttpGet (prometheus_url s) [] 5])
          \<and> last evs = Log ''ERROR'' ''Prometheus failed to start within timeout''"
    using start_prometheus_timeout [of env s h] by blast
qed

theorem readiness_poll_exact_cycles_witness:
  "(\<exists>evs. start_alertmanager (up_after 3) (init env0) =
        (Inr True, (init env0)\<lparr>trace := trace (init env0) @ evs, alertmanager_process := Some 100\<rparr>)
      \<and> filter is_cycle evs =
          HttpGet (alertmanager_url (init env0)) [] 5
            # concat (replicate 3 [Sleep 2, HttpGet (alertmanager_url (init env0)) [] 5]))
   \<and> (\<exists>evs. start_prometheus env0 (init env0) =
        (Inr False, (init env0)\<lparr>trace := trace (init env0) @ evs, prometheus_process := Some 100\<rparr>)
      \<and> filter is_cycle evs =
          HttpGet (prometheus_url (init env0)) [] 5
            # concat (replicate 15 [Sleep 2, HttpGet (prometheus_url (init env0)) [] 5])
      \<and> last evs = Log ''ERROR'' ''Prometheus failed to start within timeout'')
   \<and> (\<exists>evs. wait_ready (up_after 2) ''Alertmanager'' ''http://localhost:9093'' 2 10 [0..<10] (init env0)
        = (Inr True, (init env0)\<lparr>trace := trace (init env0) @ evs\<rparr>)
      \<and> filter is_cycle evs = concat (replicate 3 [Sleep 2, HttpGet ''http://localhost:9093'' [] 5]))
   \<and> (\<exists>evs. wait_ready env0 ''Prometheus'' ''http://localhost:9090'' 2 15 [0..<15] (init env0)
        = (Inr False, (init env0)\<lparr>trace := trace (init env0) @ evs\<rparr>)
      \<and> filter is_cycle evs = concat (replicate 15 [Sleep 2, HttpGet ''http://localhost:9090'' [] 5]))"
proof -
  let ?s = "init env0"
  have launch_a: "launches_alertmanager (up_after 3) ?s 100"
    by (simp add: launches_alertmanager_def alertmanager_attempted_def probe_ok_def
        up_after_def env0_def refused_def)
  have first_a: "first_ready_at (up_after 3) (http_count ?s + 1) (alertmanager_url ?s) 3"
    by (auto simp add: first_ready_at_def list_all_iff probe_ok_def up_after_def env0_def
        refused_def plain_200_def)
  have launch_p: "launches_prometheus env0 ?s 100"
    by (simp add: launches_prometheus_def prometheus_attempted_def probe_ok_def
        env0_def refused_def)
  have never_p: "never_ready env0 (http_count ?s + 1) (prometheus_url ?s) 15"
    by (simp add: never_ready_def list_all_iff probe_ok_def env0_def refused_def)
  have plain: "\<not> has_glyph (''Alertmanager'' @ '' started successfully'')" by simp
  have first_w: "first_ready_at (up_after 2) (http_count ?s) ''http://localhost:9093'' 3"
    by (auto simp add: first_ready_at_def list_all_iff probe_ok_def up_after_def env0_def
        refused_def plain_200_def)
  have never_w: "never_ready env0 (http_count ?s) ''http://localhost:9090'' 15"
    by (simp add: never_ready_def list_all_iff probe_ok_def env0_def refused_def)
  note stage_a = readiness_poll_exact_cycles
    [of "''x''" 3 10 "up_after 3" ?s "''u''" 2 100,
     THEN conjunct2, THEN conjunct2, THEN conjunct1]
  note stage_p = readiness_poll_exact_cycles
    [of "''x''" 1 10 env0 ?s "''u''" 2 100,
     THEN conjunct2, THEN conjunct2, THEN conjunct2, THEN conjunct2, THEN conjunct2]
  note loop_a = readiness_poll_exact_cycles
    [of "''Alertmanager''" 3 10 "up_after 2" ?s "''http://localhost:9093''" 2 100,
     THEN conjunct1]
  note loop_p = readiness_poll_exact_cycles
    [of "''Prometheus''" 1 15 env0 ?s "''http://localhost:9090''" 2 100,
     THEN conjunct2, THEN conjunct1]
  from stage_a launch_a first_a
  have a: "\<exists>evs. start_alertmanager (up_after 3) ?s =
        (Inr True, ?s\<lparr>trace := trace ?s @ evs, alertmanager_process := Some 100\<rparr>)
      \<and> filter is_cycle evs =
          HttpGet (alertmanager_url ?s) [] 5
            # concat (replicate 3 [Sleep 2, HttpGet (alertmanager_url ?s) [] 5])"
    by simp
  from stage_p launch_p never_p
  have b: "\<exists>evs. start_prometheus env0 ?s =
        (Inr False, ?s\<lparr>trace := trace ?s @ evs, prometheus_process := Some 100\<rparr>)
      \<and> filter is_cycle evs =
          HttpGet (prometheus_url ?s) [] 5
            # concat (replicate 15 [Sleep 2, HttpGet (prometheus_url ?s) [] 5])
      \<and> last evs = Log ''ERROR'' ''Prometheus failed to start within timeout''"
    by simp
  from loop_a plain first_w
  have c: "\<exists>evs. wait_ready (up_after 2) ''Alertmanager'' ''http://localhost:9093'' 2 10 [0..<10] ?s
        = (Inr True, ?s\<lparr>trace := trace ?s @ evs\<rparr>)
      \<and> filter is_cycle evs = concat (replicate 3 [Sleep 2, HttpGet ''http://localhost:9093'' [] 5])"
    by simp
  from loop_p never_w
  have d: "\<exists>evs. wait_ready env0 ''Prometheus'' ''http://localhost:9090'' 2 15 [0..<15] ?s
        = (Inr False, ?s\<lparr>trace := trace ?s @ evs\<rparr>)
      \<and> filter is_cycle evs = concat (replicate 15 [Sleep 2, HttpGet ''http://localhost:9090'' [] 5])"
    by simp
  from a b c d show ?thesis by blast
qed

subsection \<open>The process handles\<close>

lemma open_dashboards_frame:
  "\<exists>evs. open_dashboards env s = (Inr (), s\<lparr>trace := trace s @ evs\<rparr>)"
proof (cases "browser_reply env (''file:///'' @ os_path_abspath env (dashboard_path s))")
  case (Inl e)
  then show ?thesis
    by (intro exI [of _ "[Log ''INFO'' ''Opening monitoring dashboards...'',
          BrowserOpen (''file:///'' @ os_path_abspath env (dashboard_path s)),
          Log ''ERROR'' (''Failed to open HTML dashboard: '' @ str_exn e)]"])
       (simp add: open_dashboards_def webbrowser_open_def monad_defs Let_def)
next
  case (Inr opened)
  then show ?thesis
    by (intro exI [of _ "[Log ''INFO'' ''Opening monitoring dashboards...'',
          BrowserOpen (''file:///'' @ os_path_abspath env (dashboard_path s)),
          Log ''SUCCESS'' (''Opened HTML Dashboard: '' @ ''file:///''
             @ os_path_abspath env (dashboard_path s))]"])
       (simp add: open_dashboards_def webbrowser_open_def monad_defs Let_def)
qed

lemma stop_services_eq:
  "stop_services env s =
     (Inr (), s\<lparr>trace := trace s @ Log ''INFO'' ''Stopping monitoring services...''
        # (case prometheus_process s of
             None \<Rightarrow> []
           | Some h \<Rightarrow> [Terminate h, Log ''INFO'' ''Prometheus stopped''])
        @ (case alertmanager_process s of
             None \<Rightarrow> []
           | Some h \<Rightarrow> [Terminate h, Log ''INFO'' ''Alertmanager stopped''])\<rparr>)"
  by (simp add: stop_services_def monad_defs split: option.splits)

lemma start_alertmanager_handles:
  "alertmanager_process (snd (start_alertmanager env s)) =
     (if alertmanager_attempted env s
      then (case popen_reply env (popen_count s) (alertmanager_cmd env s) (alertmanager_cwd env s) of
              Inl e \<Rightarrow> alertmanager_process s
            | Inr h \<Rightarrow> Some h)
      else alertmanager_process s)
   \<and> prometheus_process (snd (start_alertmanager env s)) = prometheus_process s"
proof (cases "alertmanager_attempted env s")
  case False
  then show ?thesis
    by (auto simp add: alertmanager_attempted_def start_alertmanager_def check_url_accessible_eq
        monad_defs)
next
  case True
  show ?thesis
  proof (cases "popen_reply env (popen_count s) (alertmanager_cmd env s) (alertmanager_cwd env s)")
    case (Inl e)
    with True show ?thesis
      by (simp add: alertmanager_attempted_def alertmanager_cmd_def alertmanager_cwd_def
          start_alertmanager_def check_url_accessible_eq subprocess_Popen_def monad_defs Let_def)
  next
    case (Inr h)
    with True have launch: "launches_alertmanager env s h"
      by (simp add: launches_alertmanager_def)
    let ?s3 = "s\<lparr>trace := trace s @
           [Log ''INFO'' ''Checking Alertmanager...'', HttpGet (alertmanager_url s) [] 5,
            Log ''INFO'' ''Starting Alertmanager...'',
            Popen (alertmanager_cmd env s) (alertmanager_cwd env s)],
          alertmanager_process := Some h\<rparr>"
    have plain: "\<not> has_glyph (''Alertmanager'' @ '' started successfully'')" by simp
    from wait_ready_frame [OF plain, of env "alertmanager_url s" 2 10 "[0..<10]" ?s3]
    obtain b evs where
      run: "wait_ready env ''Alertmanager'' (alertmanager_url s) 2 10 [0..<10] ?s3 =
        (Inr b, ?s3\<lparr>trace := trace ?s3 @ evs\<rparr>)"
      by blast
    show ?thesis
      unfolding start_alertmanager_poll [OF launch]
      using run True Inr by (cases b) (simp_all add: monad_defs del: wait_ready.simps upt_Suc)
  qed
qed

lemma start_prometheus_handles:
  "prometheus_process (snd (start_prometheus env s)) =
     (if prometheus_attempted env s
      then (case popen_reply env (popen_count s) (prometheus_cmd s) (prometheus_cwd env s) of
              Inl e \<Rightarrow> prometheus_process s
            | Inr h \<Rightarrow> Some h)
      else prometheus_process s)
   \<and> alertmanager_process (snd (start_prometheus env s)) = alertmanager_process s"
proof (cases "prometheus_attempted env s")
  case False
  then show ?thesis
    by (auto simp add: prometheus_attempted_def start_prometheus_def check_url_accessible_eq
        monad_defs)
next
  case True
  show ?thesis
  proof (cases "popen_reply env (popen_count s) (prometheus_cmd s) (prometheus_cwd env s)")
    case (Inl e)
    with True show ?thesis
      by (simp add: prometheus_attempted_def prometheus_cmd_def prometheus_cwd_def
          start_prometheus_def check_url_accessible_eq subprocess_Popen_def monad_defs Let_def)
  next
    case (Inr h)
    with True have launch: "launches_prometheus env s h"
      by (simp add: launches_prometheus_def)
    let ?s3 = "s\<lparr>trace := trace s @
           [Log ''INFO'' ''Checking Prometheus...'', HttpGet (prometheus_url s) [] 5,
            Log ''INFO'' ''Starting Prometheus...'',
            Popen (prometheus_cmd s) (prometheus_cwd env s)],
          prometheus_process := Some h\<rparr>"
    have plain: "\<not> has_glyph (''Prometheus'' @ '' started successfully'')" by simp
    from wait_ready_frame [OF plain, of env "prometheus_url s" 2 15 "[0..<15]" ?s3]
    obtain b evs where
      run: "wait_ready env ''Prometheus'' (prometheus_url s) 2 15 [0..<15] ?s3 =
        (Inr b, ?s3\<lparr>trace := trace ?s3 @ evs\<rparr>)"
      by blast
    show ?thesis
      unfolding start_prometheus_poll [OF launch]
      using run True Inr by (cases b) (simp_all add: monad_defs del: wait_ready.simps upt_Suc)
  qed
qed

text \<open>
  C9, as the code has it. A process handle is written only by the stage that launches
  its process, and only when that stage calls \<open>Popen\<close> (its URL did not answer 200 and
  its executable exists) and \<open>Popen\<close> returns: the stage then stores the handle
  \<open>Popen\<close> returned, and otherwise leaves the handle as it was. No operation ever clears
  a handle. \<open>stop_services\<close> sends \<open>terminate\<close> once to each populated handle,
  Prometheus first, and changes nothing but the trace, so both handles stay populated
  after the termination. The probe, the exporter stage, the final verification, the
  telemetry and the dashboard leave both handles as they are.
\<close>

theorem process_handles_never_cleared:
  "(\<exists>evs. stop_services env s = (Inr (), s\<lparr>trace := trace s @ evs\<rparr>)
      \<and> filter is_terminate evs =
          (case prometheus_process s of None \<Rightarrow> [] | Some h \<Rightarrow> [Terminate h])
          @ (case alertmanager_process s of None \<Rightarrow> [] | Some h \<Rightarrow> [Terminate h]))
   \<and> alertmanager_process (snd (start_alertmanager env s)) =
       (if alertmanager_attempted env s
        then (case popen_reply env (popen_count s) (alertmanager_cmd env s) (alertmanager_cwd env s) of
                Inl e \<Rightarrow> alertmanager_process s
              | Inr h \<Rightarrow> Some h)
        else alertmanager_process s)
   \<and> prometheus_process (snd (start_alertmanager env s)) = prometheus_process s
   \<and> prometheus_process (snd (start_prometheus env s)) =
       (if prometheus_attempted env s
        then (case popen_reply env (popen_count s) (prometheus_cmd s) (prometheus_cwd env s) of
                Inl e \<Rightarrow> prometheus_process s
              | Inr h \<Rightarrow> Some h)
        else prometheus_process s)
   \<and> alertmanager_process (snd (start_prometheus env s)) = alertmanager_process s
   \<and> handles (snd (check_url_accessible env url timeout s)) = handles s
   \<and> handles (snd (start_windows_exporter env s)) = handles s
   \<and> handles (snd (verify_services env s)) = handles s
   \<and> handles (snd (get_system_metrics env s)) = handles s
   \<and> handles (snd (check_alerts env s)) = handles s
   \<and> handles (snd (open_dashboards env s)) = handles s"
proof -
  have stop: "\<exists>evs. stop_services env s = (Inr (), s\<lparr>trace := trace s @ evs\<rparr>)
      \<and> filter is_terminate evs =
          (case prometheus_process s of None \<Rightarrow> [] | Some h \<Rightarrow> [Terminate h])
          @ (case alertmanager_process s of None \<Rightarrow> [] | Some h \<Rightarrow> [Terminate h])"
    unfolding stop_services_eq
    by (intro exI [of _ "Log ''INFO'' ''Stopping monitoring services...''
        # (case prometheus_process s of
             None \<Rightarrow> []
           | Some h \<Rightarrow> [Terminate h, Log ''INFO'' ''Prometheus stopped''])
        @ (case alertmanager_process s of
             None \<Rightarrow> []
           | Some h \<Rightarrow> [Terminate h, Log ''INFO'' ''Alertmanager stopped''])"])
       (simp split: option.splits)
  from start_windows_exporter_frame [of env s] obtain b3 evs3 where
    ex: "start_windows_exporter env s = (Inr b3, s\<lparr>trace := trace s @ evs3\<rparr>)"
    by blast
  from verify_services_frame [of env s] obtain r4 evs4 where
    ve: "verify_services env s = (r4, s\<lparr>trace := trace s @ evs4\<rparr>)"
    by blast
  from open_dashboards_frame [of env s] obtain evs6 where
    da: "open_dashboards env s = (Inr (), s\<lparr>trace := trace s @ evs6\<rparr>)"
    by blast
  have rest: "handles (snd (check_url_accessible env url timeout s)) = handles s
   \<and> handles (snd (start_windows_exporter env s)) = handles s
   \<and> handles (snd (verify_services env s)) = handles s
   \<and> handles (snd (get_system_metrics env s)) = handles s
   \<and> handles (snd (check_alerts env s)) = handles s
   \<and> handles (snd (open_dashboards env s)) = handles s"
    by (simp add: ex ve da get_system_metrics_eq check_alerts_report check_url_accessible_eq
        handles_def)
  from stop start_alertmanager_handles [of env s] start_prometheus_handles [of env s] rest
  show ?thesis by blast
qed

theorem process_handles_never_cleared_witness:
  "alertmanager_process (snd (start_alertmanager env0 (init env0))) = Some 100
   \<and> filter is_terminate
        (trace (snd (stop_services env0 ((init env0)\<lparr>alertmanager_process := Some 100\<rparr>))))
      = [Terminate 100]
   \<and> handles (snd (stop_services env0 ((init env0)\<lparr>alertmanager_process := Some 100\<rparr>)))
      = (None, Some 100)"
proof -
  let ?s = "(init env0)\<lparr>alertmanager_process := Some 100\<rparr>"
  have init: "prometheus_process ?s = None" "alertmanager_process ?s = Some 100" "trace ?s = []"
    by (simp_all add: init_def)
  have attempted: "alertmanager_attempted env0 (init env0)"
    by (simp add: alertmanager_attempted_def probe_ok_def env0_def refused_def)
  have reply: "popen_reply env0 (popen_count (init env0)) (alertmanager_cmd env0 (init env0))
      (alertmanager_cwd env0 (init env0)) = Inr 100"
    by (simp add: env0_def)
  from process_handles_never_cleared [of env0 "init env0" "''''" 5, THEN conjunct2, THEN conjunct1]
    attempted reply
  have launched: "alertmanager_process (snd (start_alertmanager env0 (init env0))) = Some 100"
    by simp
  from process_handles_never_cleared [of env0 ?s "''''" 5, THEN conjunct1]
  have "filter is_terminate (trace (snd (stop_services env0 ?s))) = [Terminate 100]
      \<and> handles (snd (stop_services env0 ?s)) = (None, Some 100)"
    unfolding init by (auto simp add: handles_def init_def)
  with launched show ?thesis by blast
qed

text \<open>
  The claim as the specification words it fails: after the explicit termination of both
  processes, both handles are still populated.
\<close>

theorem process_handles_cleared_counterexample:
  "filter is_terminate (trace (snd (stop_services env0 both_launched))) = [Terminate 101, Terminate 100]
   \<and> prometheus_process (snd (stop_services env0 both_launched)) = Some 101
   \<and> alertmanager_process (snd (stop_services env0 both_launched)) = Some 100"
  by (simp add: stop_services_eq both_launched_def init_def)

end
